theory Spec2Isabelle
  imports Complex_Main
begin

section \<open>Python values and text\<close>

text \<open>
  Python text is modelled as \<^typ>\<open>string\<close>. ASCII characters stand for themselves; a
  character outside ASCII is written by its UTF-8 bytes, and the classes the code
  asks about (digit, white space) are the ASCII ones.
\<close>

definition warning_sign :: string where
  "warning_sign = [CHR 0xE2, CHR 0x9A, CHR 0xA0, CHR 0xEF, CHR 0xB8, CHR 0x8F]"

definition cross_mark :: string where
  "cross_mark = [CHR 0xE2, CHR 0x9D, CHR 0x8C]"

definition check_mark :: string where
  "check_mark = [CHR 0xE2, CHR 0x9C, CHR 0x85]"

definition no_entry_sign :: string where
  "no_entry_sign = [CHR 0xF0, CHR 0x9F, CHR 0x9A, CHR 0xAB]"

definition euro :: string where
  "euro = [CHR 0xE2, CHR 0x82, CHR 0xAC]"

definition is_digit :: "char \<Rightarrow> bool" where
  "is_digit c = (48 \<le> (of_char c :: nat) \<and> (of_char c :: nat) \<le> 57)"

definition digit_val :: "char \<Rightarrow> nat" where
  "digit_val c = of_char c - 48"

definition digit_char :: "nat \<Rightarrow> char" where
  "digit_char d = ''0123456789'' ! d"

text \<open>The value of a run of decimal digits, most significant first.\<close>

definition nat_of_digits :: "string \<Rightarrow> nat" where
  "nat_of_digits s = foldl (\<lambda>a c. 10 * a + digit_val c) 0 s"

text \<open>\<open>str(n)\<close> of a natural number and of an integer.\<close>

fun digits :: "nat \<Rightarrow> string" where
  "digits n = (if n < 10 then [digit_char n] else digits (n div 10) @ [digit_char (n mod 10)])"

declare digits.simps [simp del]

definition str_int :: "int \<Rightarrow> string" where
  "str_int i = (if i < 0 then CHR ''-'' # digits (nat (- i)) else digits (nat i))"

text \<open>Zero padding to two places, as \<open>%H\<close>, \<open>%M\<close>, \<open>%S\<close>, \<open>%m\<close> and \<open>%d\<close> print.\<close>

definition pad2 :: "nat \<Rightarrow> string" where
  "pad2 n = (if n < 10 then CHR ''0'' # digits n else digits n)"

definition pad4 :: "nat \<Rightarrow> string" where
  "pad4 n = replicate (4 - length (digits n)) CHR ''0'' @ digits n"

text \<open>
  An exception is its class, as far as an \<open>except\<close> clause of the program tells
  classes apart, and its text \<open>str(e)\<close>. \<open>Exception\<close> stands for every class that
  only \<open>except Exception\<close> catches (\<open>TypeError\<close>, \<open>ValueError\<close>, \<open>AttributeError\<close>,
  the errors of the network clients). A call that may raise returns \<open>exn + 'a\<close>.
\<close>

datatype exn = RateLimitError string | AuthenticationError string | Exception string

fun exn_str :: "exn \<Rightarrow> string" where
  "exn_str (RateLimitError d) = d"
| "exn_str (AuthenticationError d) = d"
| "exn_str (Exception d) = d"

text \<open>
  The values \<open>json.loads\<close> puts into the argument dictionary of a tool call: \<open>null\<close>,
  an integer, a float (given by its value and by its \<open>str\<close> text, the two readings the
  handlers take of a float) and a string. Booleans, arrays and nested objects are
  not argument values of any tool of the schema and are left out.
\<close>

datatype jval = JNull | JInt int | JFloat rat string | JStr string

text \<open>Truth value, as in \<open>if date:\<close>.\<close>

fun truthy :: "jval \<Rightarrow> bool" where
  "truthy JNull = False"
| "truthy (JInt i) = (i \<noteq> 0)"
| "truthy (JFloat v r) = (v \<noteq> 0)"
| "truthy (JStr s) = (s \<noteq> [])"

text \<open>The text an f-string puts for \<open>{x}\<close>.\<close>

fun py_str :: "jval \<Rightarrow> string" where
  "py_str JNull = ''None''"
| "py_str (JInt i) = str_int i"
| "py_str (JFloat v r) = r"
| "py_str (JStr s) = s"

text \<open>The text read back from a cell that was written with the value: \<open>None\<close> leaves the cell empty.\<close>

fun cell_text :: "jval \<Rightarrow> string" where
  "cell_text JNull = []"
| "cell_text v = py_str v"

text \<open>
  \<open>repr\<close> of a string, which the texts of \<open>ValueError\<close> quote: single quotes unless
  the string has a single and no double quote; backslash, the quote, and control
  characters escaped.
\<close>

definition hex2 :: "nat \<Rightarrow> string" where
  "hex2 n = [''0123456789abcdef'' ! (n div 16), ''0123456789abcdef'' ! (n mod 16)]"

definition repr_char :: "char \<Rightarrow> char \<Rightarrow> string" where
  "repr_char q c =
     (if c = CHR 0x5C then [CHR 0x5C, CHR 0x5C]
      else if c = q then [CHR 0x5C, q]
      else if c = CHR 0x0A then [CHR 0x5C, CHR ''n'']
      else if c = CHR 0x0D then [CHR 0x5C, CHR ''r'']
      else if c = CHR 0x09 then [CHR 0x5C, CHR ''t'']
      else if (of_char c :: nat) < 32 \<or> (of_char c :: nat) = 127
        then [CHR 0x5C, CHR ''x''] @ hex2 (of_char c)
      else [c])"

definition py_repr :: "string \<Rightarrow> string" where
  "py_repr s =
     (let q = (if CHR 0x27 \<in> set s \<and> CHR 0x22 \<notin> set s then CHR 0x22 else CHR 0x27)
      in [q] @ concat (map (repr_char q) s) @ [q])"

text \<open>
  \<open>int(x)\<close>. A string is stripped of white space and read as an optional sign and
  decimal digits, single underscores allowed between digits; a float is cut towards
  zero; \<open>None\<close> is a \<open>TypeError\<close>.
\<close>

definition is_space :: "char \<Rightarrow> bool" where
  "is_space c = (let n = (of_char c :: nat) in (9 \<le> n \<and> n \<le> 13) \<or> (28 \<le> n \<and> n \<le> 32))"

definition strip :: "string \<Rightarrow> string" where
  "strip s = rev (dropWhile is_space (rev (dropWhile is_space s)))"

fun no_double_underscore :: "string \<Rightarrow> bool" where
  "no_double_underscore (a # b # cs) =
     (\<not> (a = CHR ''_'' \<and> b = CHR ''_'') \<and> no_double_underscore (b # cs))"
| "no_double_underscore cs = True"

definition int_literal :: "string \<Rightarrow> bool" where
  "int_literal b =
     (b \<noteq> [] \<and> list_all (\<lambda>c. is_digit c \<or> c = CHR ''_'') b \<and> is_digit (hd b) \<and>
      is_digit (last b) \<and> no_double_underscore b)"

definition int_of_str :: "string \<Rightarrow> int option" where
  "int_of_str s =
     (let t = strip s;
          neg = (t \<noteq> [] \<and> hd t = CHR ''-'');
          b = (if t \<noteq> [] \<and> (hd t = CHR ''-'' \<or> hd t = CHR ''+'') then tl t else t)
      in if int_literal b
         then Some ((if neg then - 1 else 1) * int (nat_of_digits (filter is_digit b)))
         else None)"

fun py_int :: "jval \<Rightarrow> exn + int" where
  "py_int JNull = Inl (Exception
     (''int() argument must be a string, a bytes-like object or a real number, not ''
      @ [CHR 0x27] @ ''NoneType'' @ [CHR 0x27]))"
| "py_int (JInt i) = Inr i"
| "py_int (JFloat v r) = Inr (if 0 \<le> v then \<lfloor>v\<rfloor> else \<lceil>v\<rceil>)"
| "py_int (JStr s) =
     (case int_of_str s of
        Some i \<Rightarrow> Inr i
      | None \<Rightarrow> Inl (Exception (''invalid literal for int() with base 10: '' @ py_repr s)))"

section \<open>Clock and calendar dates\<close>

record datetime =
  year :: nat
  month :: nat
  day :: nat
  hour :: nat
  minute :: nat
  second :: nat

text \<open>\<open>strftime\<close> for the three formats of the program (years of four digits).\<close>

definition strftime_HMS :: "datetime \<Rightarrow> string" where
  "strftime_HMS t = pad2 (hour t) @ '':'' @ pad2 (minute t) @ '':'' @ pad2 (second t)"

definition strftime_Ymd :: "datetime \<Rightarrow> string" where
  "strftime_Ymd t = pad4 (year t) @ ''-'' @ pad2 (month t) @ ''-'' @ pad2 (day t)"

definition strftime_YmdHMS :: "datetime \<Rightarrow> string" where
  "strftime_YmdHMS t = strftime_Ymd t @ '' '' @ strftime_HMS t"

definition strftime_YmdHM :: "datetime \<Rightarrow> string" where
  "strftime_YmdHM t = strftime_Ymd t @ '' '' @ pad2 (hour t) @ '':'' @ pad2 (minute t)"

text \<open>Order of two \<open>datetime\<close> values: lexicographic on the six fields.\<close>

definition dt_key :: "datetime \<Rightarrow> nat list" where
  "dt_key t = [year t, month t, day t, hour t, minute t, second t]"

fun lex_less :: "nat list \<Rightarrow> nat list \<Rightarrow> bool" where
  "lex_less (a # as) (b # bs) = (a < b \<or> (a = b \<and> lex_less as bs))"
| "lex_less as bs = False"

definition dt_less :: "datetime \<Rightarrow> datetime \<Rightarrow> bool" where
  "dt_less s t = lex_less (dt_key s) (dt_key t)"

definition is_leap :: "nat \<Rightarrow> bool" where
  "is_leap y = (y mod 4 = 0 \<and> (y mod 100 \<noteq> 0 \<or> y mod 400 = 0))"

definition days_in_month :: "nat \<Rightarrow> nat \<Rightarrow> nat" where
  "days_in_month y m =
     (if m = 2 then (if is_leap y then 29 else 28)
      else if m = 4 \<or> m = 6 \<or> m = 9 \<or> m = 11 then 30 else 31)"

text \<open>
  \<open>datetime.strptime(s, "%Y-%m-%d")\<close>. The format is matched as the regular expression
  of four digits, a dash, a month (\<open>1[0-2]|0[1-9]|[1-9]\<close>), a dash and a day
  (\<open>3[0-1]|[1-2]\d|0[1-9]|[1-9]| [1-9]\<close>); text left over after the match, a year 0 or
  a day the month does not have are \<open>ValueError\<close>s as well. The result is the date at
  midnight.
\<close>

definition month_token :: "string \<Rightarrow> bool" where
  "month_token m =
     (list_all is_digit m \<and> (length m = 1 \<or> length m = 2) \<and>
      1 \<le> nat_of_digits m \<and> nat_of_digits m \<le> 12)"

definition day_token :: "string \<Rightarrow> bool" where
  "day_token d =
     ((list_all is_digit d \<and> (length d = 1 \<or> length d = 2) \<and>
       1 \<le> nat_of_digits d \<and> nat_of_digits d \<le> 31) \<or>
      (length d = 2 \<and> hd d = CHR '' '' \<and> is_digit (d ! 1) \<and> d ! 1 \<noteq> CHR ''0''))"

definition not_dash :: "char \<Rightarrow> bool" where
  "not_dash c = (c \<noteq> CHR ''-'')"

definition strptime_Ymd :: "string \<Rightarrow> exn + datetime" where
  "strptime_Ymd s =
     (let y = take 4 s;
          r = drop 4 s;
          m = takeWhile not_dash (drop 1 r);
          r2 = dropWhile not_dash (drop 1 r);
          d = drop 1 r2;
          mismatch = Exception (''time data '' @ py_repr s @ '' does not match format ''
                        @ py_repr ''%Y-%m-%d'')
      in if \<not> (length y = 4 \<and> list_all is_digit y \<and> take 1 r = ''-'' \<and> month_token m \<and>
               take 1 r2 = ''-'')
         then Inl mismatch
         else if day_token d then
           (let yv = nat_of_digits y; mv = nat_of_digits m;
                dv = nat_of_digits (filter is_digit d)
            in if yv = 0 then Inl (Exception ''year 0 is out of range'')
               else if days_in_month yv mv < dv
                 then Inl (Exception ''day is out of range for month'')
               else Inr \<lparr>year = yv, month = mv, day = dv, hour = 0, minute = 0, second = 0\<rparr>)
         else if day_token (take 2 d) then
           Inl (Exception (''unconverted data remains: '' @ drop 2 d))
         else if day_token (take 1 d) then
           Inl (Exception (''unconverted data remains: '' @ drop 1 d))
         else Inl mismatch)"

text \<open>On an argument that is no string \<open>strptime\<close> raises \<open>TypeError\<close>.\<close>

fun strptime_arg :: "jval \<Rightarrow> exn + datetime" where
  "strptime_arg (JStr s) = strptime_Ymd s"
| "strptime_arg JNull = Inl (Exception ''strptime() argument 1 must be str, not None'')"
| "strptime_arg (JInt i) = Inl (Exception ''strptime() argument 1 must be str, not int'')"
| "strptime_arg (JFloat v r) = Inl (Exception ''strptime() argument 1 must be str, not float'')"

section \<open>Floats\<close>

text \<open>
  A Python float is an IEEE 754 double: a finite value (a rational that the format
  represents), an infinity or a NaN. The sign of zero is not kept: the total of
  \<open>calculate_total\<close> starts at \<open>0.0\<close> and a sum of doubles is \<open>-0.0\<close> only when both
  are, so the total is never \<open>-0.0\<close>.
\<close>

datatype pyfloat = Fin rat | PInf | NInf | NaN

fun bitlen :: "nat \<Rightarrow> nat" where
  "bitlen n = (if n = 0 then 0 else Suc (bitlen (n div 2)))"

declare bitlen.simps [simp del]

definition pow2 :: "int \<Rightarrow> rat" where
  "pow2 k = (if 0 \<le> k then 2 ^ nat k else 1 / 2 ^ nat (- k))"

text \<open>The exponent \<open>e\<close> with \<open>2 ^ e \<le> q < 2 ^ (e + 1)\<close>, for \<open>q > 0\<close>.\<close>

definition ilog2 :: "rat \<Rightarrow> int" where
  "ilog2 q =
     (let (a, b) = quotient_of q;
          e0 = int (bitlen (nat a)) - int (bitlen (nat b))
      in if q < pow2 e0 then e0 - 1 else e0)"

text \<open>Rounding of a non-negative rational to the nearest integer, a tie to the even one.\<close>

definition round_half_even :: "rat \<Rightarrow> int" where
  "round_half_even x =
     (let f = \<lfloor>x\<rfloor>; r = x - of_int f
      in if r < 1 / 2 then f else if 1 / 2 < r then f + 1
         else if even f then f else f + 1)"

text \<open>
  Rounding of a rational to the nearest double, a tie to the even mantissa: 53 bits of
  mantissa, the least exponent of a unit in the last place \<open>-1074\<close>, overflow to an
  infinity from \<open>2 ^ 1024\<close> on.
\<close>

definition round_double :: "rat \<Rightarrow> pyfloat" where
  "round_double q =
     (if q = 0 then Fin 0
      else let a = \<bar>q\<bar>;
               k = max (ilog2 a - 52) (- 1074);
               v = of_int (round_half_even (a / pow2 k)) * pow2 k
           in if 2 ^ 1024 \<le> v then (if q < 0 then NInf else PInf)
              else Fin (if q < 0 then - v else v))"

fun fadd :: "pyfloat \<Rightarrow> pyfloat \<Rightarrow> pyfloat" where
  "fadd (Fin a) (Fin b) = round_double (a + b)"
| "fadd NaN y = NaN"
| "fadd x NaN = NaN"
| "fadd PInf NInf = NaN"
| "fadd NInf PInf = NaN"
| "fadd PInf y = PInf"
| "fadd NInf y = NInf"
| "fadd x PInf = PInf"
| "fadd x NInf = NInf"

text \<open>
  \<open>float(s)\<close> for a text of digits, dots and minus signs, which is all that the
  cleaning of an amount leaves: an optional minus, then digits with an optional dot
  and further digits, or a dot and digits. Anything else is a \<open>ValueError\<close>.
\<close>

definition not_dot :: "char \<Rightarrow> bool" where
  "not_dot c = (c \<noteq> CHR ''.'')"

definition float_of_str :: "string \<Rightarrow> exn + pyfloat" where
  "float_of_str s =
     (let neg = (take 1 s = ''-'');
          b = (if neg then drop 1 s else s);
          ip = takeWhile not_dot b;
          fp = drop 1 (dropWhile not_dot b)
      in if list_all is_digit ip \<and> list_all is_digit fp \<and> (ip \<noteq> [] \<or> fp \<noteq> [])
         then (let q = of_nat (nat_of_digits (ip @ fp)) / 10 ^ length fp
               in Inr (round_double (if neg then - q else q)))
         else Inl (Exception (''could not convert string to float: '' @ py_repr s)))"

text \<open>\<open>f"{x:.2f}"\<close>: the value rounded to hundredths, a tie to the even digit.\<close>

fun format_2f :: "pyfloat \<Rightarrow> string" where
  "format_2f (Fin v) =
     (let n = nat (round_half_even (\<bar>v\<bar> * 100))
      in (if v < 0 then ''-'' else '''') @ digits (n div 100) @ ''.'' @ pad2 (n mod 100))"
| "format_2f PInf = ''inf''"
| "format_2f NInf = ''-inf''"
| "format_2f NaN = ''nan''"

section \<open>The world outside the process\<close>

text \<open>
  What the tools reach outside the process: the ledger table behind \<open>gspread\<close>, the
  environment variable \<open>GOOGLE_SHEET_ID\<close>, the wall clock and the calendar service.
  The table is the list of rows that \<open>get_all_values\<close> returns, every cell a text, in a
  grid of \<open>grid_rows\<close> rows. \<open>sheet_fault\<close>, when set, is the text of the exception with
  which loading the credentials and opening the sheet fail; \<open>api_reject\<close> is the text of
  the exception with which the service refuses a row outside the grid. The clock is
  read through \<open>clock\<close>, one entry for each reading, \<open>ticks\<close> counting the readings.
\<close>

record 'c world =
  sheet :: "string list list"
  grid_rows :: nat
  sheet_fault :: "string option"
  api_reject :: string
  sheet_id :: "string option"
  clock :: "nat \<Rightarrow> datetime"
  ticks :: nat
  calendar :: 'c

text \<open>\<open>datetime.datetime.now()\<close>.\<close>

definition now :: "'c world \<Rightarrow> datetime \<times> 'c world" where
  "now w = (clock w (ticks w), w\<lparr>ticks := Suc (ticks w)\<rparr>)"

text \<open>\<open>get_creds()\<close>, \<open>gspread.authorize\<close> and \<open>open_by_key(...).sheet1\<close>.\<close>

definition open_sheet :: "'c world \<Rightarrow> exn + unit" where
  "open_sheet w = (case sheet_fault w of Some d \<Rightarrow> Inl (Exception d) | None \<Rightarrow> Inr ())"

text \<open>
  The operations of the ledger backend that the tools call. The library and the
  service behind them are not part of the repository; the operations are modelled as
  the specification describes the backend (a table addressed by position): the read of
  the whole table, the insertion of a row after the last one, the deletion of a row by position
  (rows of the grid below the table are empty, their deletion leaves the table as it
  is), and the read and the write of the first five cells of one row. The read of a
  row leaves out its trailing empty cells, and gives no row at all when nothing is
  left.
\<close>

definition get_all_values :: "'c world \<Rightarrow> string list list" where
  "get_all_values w = sheet w"

definition append_row :: "string list \<Rightarrow> 'c world \<Rightarrow> 'c world" where
  "append_row r w =
     w\<lparr>sheet := sheet w @ [r], grid_rows := max (grid_rows w) (Suc (length (sheet w)))\<rparr>"

definition in_grid :: "int \<Rightarrow> 'c world \<Rightarrow> bool" where
  "in_grid k w = (1 \<le> k \<and> k \<le> int (grid_rows w))"

definition delete_rows :: "int \<Rightarrow> 'c world \<Rightarrow> exn + 'c world" where
  "delete_rows k w =
     (if in_grid k w
      then Inr (w\<lparr>sheet := take (nat k - 1) (sheet w) @ drop (nat k) (sheet w),
                  grid_rows := grid_rows w - 1\<rparr>)
      else Inl (Exception (api_reject w)))"

definition trim_cells :: "string list \<Rightarrow> string list" where
  "trim_cells r = rev (dropWhile (\<lambda>c. c = []) (rev r))"

definition get_range :: "int \<Rightarrow> 'c world \<Rightarrow> exn + string list list" where
  "get_range k w =
     (if in_grid k w
      then (if nat k \<le> length (sheet w)
            then (let r = trim_cells (take 5 (sheet w ! (nat k - 1)))
                  in if r = [] then Inr [] else Inr [r])
            else Inr [])
      else Inl (Exception (api_reject w)))"

definition update_range :: "int \<Rightarrow> string list \<Rightarrow> 'c world \<Rightarrow> 'c world" where
  "update_range k r w =
     w\<lparr>sheet := (sheet w)[nat k - 1 := r @ drop 5 (sheet w ! (nat k - 1))]\<rparr>"

section \<open>The ledger tools (\<^verbatim>\<open>tools.py\<close>)\<close>

text \<open>
  Each tool takes its arguments as the values of the decoded dictionary; a parameter
  that the call leaves out has its default (\<open>None\<close> is \<^const>\<open>JNull\<close>). Each returns its
  text and the world after it.
\<close>

definition append_to_sheet ::
  "jval \<Rightarrow> jval \<Rightarrow> jval \<Rightarrow> jval \<Rightarrow> jval \<Rightarrow> jval \<Rightarrow> 'c world \<Rightarrow> string \<times> 'c world" where
  "append_to_sheet item_name amount category date currency note w =
     (case open_sheet w of
        Inl e \<Rightarrow> (cross_mark @ '' Recording failed, error details: '' @ exn_str e, w)
      | Inr _ \<Rightarrow>
          (let (t, w1) = now w;
               timestamp = (if truthy date then py_str date @ '' '' @ strftime_HMS t
                            else strftime_YmdHMS t);
               amount_str = py_str amount @ py_str currency;
               full_note = note;
               row_data = [timestamp, cell_text item_name, amount_str, cell_text category,
                           cell_text full_note];
               existing_rows = length (get_all_values w1);
               row_id = existing_rows + 1;
               w2 = append_row row_data w1;
               date_only = takeWhile (\<lambda>c. c \<noteq> CHR '' '') timestamp;
               msg = ''Saved: '' @ date_only @ '' #'' @ digits row_id @ '' '' @ py_str item_name
                     @ '' '' @ amount_str @ '' ('' @ py_str category @ '')''
           in (msg, w2)))"

definition failed_to_delete :: "exn \<Rightarrow> string" where
  "failed_to_delete e = cross_mark @ '' Failed to delete: '' @ exn_str e"

definition invalid_row_id :: "jval \<Rightarrow> nat \<Rightarrow> string" where
  "invalid_row_id row_id n =
     warning_sign @ '' Invalid Row ID: '' @ py_str row_id @ ''. (Max is '' @ digits n @ '')''"

definition delete_specific_row :: "jval \<Rightarrow> 'c world \<Rightarrow> string \<times> 'c world" where
  "delete_specific_row row_id w =
     (case open_sheet w of
        Inl e \<Rightarrow> (failed_to_delete e, w)
      | Inr _ \<Rightarrow>
          (case py_int row_id of
             Inl e \<Rightarrow> (failed_to_delete e, w)
           | Inr row_int \<Rightarrow>
               (let all_values = get_all_values w
                in if row_int < 1 \<or> row_int > int (length all_values) + 5
                   then (invalid_row_id row_id (length all_values), w)
                   else (case delete_rows row_int w of
                           Inl e \<Rightarrow> (failed_to_delete e, w)
                         | Inr w' \<Rightarrow>
                             (check_mark @ '' Deleted record #'' @ py_str row_id @ ''.'', w')))))"

definition delete_last_row :: "'c world \<Rightarrow> string \<times> 'c world" where
  "delete_last_row w =
     (case open_sheet w of
        Inl e \<Rightarrow> (failed_to_delete e, w)
      | Inr _ \<Rightarrow>
          (let all_values = get_all_values w
           in if length all_values \<le> 1
              then (warning_sign @ '' The sheet seems empty (or only has headers).'', w)
              else (let last_row_index = length all_values
                    in case delete_rows (int last_row_index) w of
                         Inl e \<Rightarrow> (failed_to_delete e, w)
                       | Inr w' \<Rightarrow>
                           (check_mark @ '' Deleted the last record (Row ''
                              @ digits last_row_index @ '').'', w'))))"

definition failed_to_update :: "exn \<Rightarrow> string" where
  "failed_to_update e = cross_mark @ '' Failed to update: '' @ exn_str e"

text \<open>The five assignments of \<open>update_specific_row\<close> to the padded row, in their order.\<close>

definition overlay ::
  "string list \<Rightarrow> jval \<Rightarrow> jval \<Rightarrow> jval \<Rightarrow> jval \<Rightarrow> jval \<Rightarrow> jval \<Rightarrow> string \<Rightarrow> string list" where
  "overlay current_row item_name amount category date currency note current_time =
     (let r0 = (if truthy date then current_row[0 := py_str date @ '' '' @ current_time]
                else current_row);
          r1 = (if truthy item_name then r0[1 := py_str item_name] else r0);
          r2 = (if amount \<noteq> JNull then r1[2 := py_str amount @ py_str currency] else r1);
          r3 = (if truthy category then r2[3 := py_str category] else r2);
          r4 = (if truthy note then r3[4 := py_str note] else r3)
      in r4)"

definition update_specific_row ::
  "jval \<Rightarrow> jval \<Rightarrow> jval \<Rightarrow> jval \<Rightarrow> jval \<Rightarrow> jval \<Rightarrow> jval \<Rightarrow> 'c world \<Rightarrow> string \<times> 'c world" where
  "update_specific_row row_id item_name amount category date currency note w =
     (case open_sheet w of
        Inl e \<Rightarrow> (failed_to_update e, w)
      | Inr _ \<Rightarrow>
          (case py_int row_id of
             Inl e \<Rightarrow> (failed_to_update e, w)
           | Inr row_int \<Rightarrow>
               (case get_range row_int w of
                  Inl e \<Rightarrow> (failed_to_update e, w)
                | Inr cell_values \<Rightarrow>
                    if cell_values = [] \<or> hd cell_values = []
                    then (warning_sign @ '' Row '' @ py_str row_id @ '' seems empty or invalid.'', w)
                    else
                      (let current_row = hd cell_values
                                           @ replicate (5 - length (hd cell_values)) [];
                           new_row = overlay current_row item_name amount category date currency
                                       note (strftime_HMS (fst (now w)));
                           w1 = (if truthy date then snd (now w) else w);
                           w2 = update_range row_int new_row w1
                       in (check_mark @ '' Updated record #'' @ py_str row_id @ '': '' @ new_row ! 1
                             @ '' '' @ new_row ! 2 @ '' ('' @ new_row ! 3 @ '')'', w2)))))"

definition get_sheet_url :: "'c world \<Rightarrow> string" where
  "get_sheet_url w =
     (case sheet_id w of
        None \<Rightarrow> cross_mark @ '' Error: GOOGLE_SHEET_ID not found in .env''
      | Some i \<Rightarrow>
          if i = [] then cross_mark @ '' Error: GOOGLE_SHEET_ID not found in .env''
          else ''https://docs.google.com/spreadsheets/d/'' @ i)"

text \<open>
  \<open>calculate_total\<close>. The cleaning of an amount keeps digits, dots, commas and minus
  signs and turns each comma into a dot.
\<close>

definition clean_amount :: "string \<Rightarrow> string" where
  "clean_amount amount_str =
     map (\<lambda>c. if c = CHR '','' then CHR ''.'' else c)
       (filter (\<lambda>c. is_digit c \<or> c = CHR ''.'' \<or> c = CHR '','' \<or> c = CHR ''-'') amount_str)"

text \<open>
  The body of the loop over the rows, for one row: the amount that the row adds to the
  total, or \<open>None\<close> where the body ends in one of its \<open>continue\<close>s (a row of fewer than
  three cells, a date that does not parse or lies outside the bounds, an amount that
  does not parse).
\<close>

definition row_amount :: "datetime option \<Rightarrow> datetime option \<Rightarrow> string list \<Rightarrow> pyfloat option" where
  "row_amount start_dt end_dt row =
     (if length row < 3 then None
      else (let date_str = row ! 0; amount_str = row ! 2
            in case strptime_Ymd (take 10 date_str) of
                 Inl e \<Rightarrow> None
               | Inr row_date_dt \<Rightarrow>
                   if (case start_dt of Some s \<Rightarrow> dt_less row_date_dt s | None \<Rightarrow> False) then None
                   else if (case end_dt of Some e \<Rightarrow> dt_less e row_date_dt | None \<Rightarrow> False) then None
                   else (case float_of_str (clean_amount amount_str) of
                           Inl e \<Rightarrow> None
                         | Inr val \<Rightarrow> Some val)))"

text \<open>The loop itself (its counter \<open>row_count\<close>, which nothing reads, is left out).\<close>

fun scan_rows :: "datetime option \<Rightarrow> datetime option \<Rightarrow> string list list \<Rightarrow> pyfloat \<Rightarrow> pyfloat" where
  "scan_rows start_dt end_dt [] total' = total'"
| "scan_rows start_dt end_dt (row # rows) total' =
     (case row_amount start_dt end_dt row of
        None \<Rightarrow> scan_rows start_dt end_dt rows total'
      | Some val \<Rightarrow> scan_rows start_dt end_dt rows (fadd total' val))"

text \<open>A bound of the range: none when the argument is not truthy, else its date.\<close>

definition range_bound :: "jval \<Rightarrow> exn + datetime option" where
  "range_bound d =
     (if truthy d
      then (case strptime_arg d of Inl e \<Rightarrow> Inl e | Inr t \<Rightarrow> Inr (Some t))
      else Inr None)"

definition end_of_day :: "datetime \<Rightarrow> datetime" where
  "end_of_day t = t\<lparr>hour := 23, minute := 59, second := 59\<rparr>"

definition calculate_total :: "jval \<Rightarrow> jval \<Rightarrow> 'c world \<Rightarrow> string" where
  "calculate_total start_date end_date w =
     (case open_sheet w of
        Inl e \<Rightarrow> ''Error: '' @ exn_str e
      | Inr _ \<Rightarrow>
          (let all_values = get_all_values w
           in if length all_values \<le> 1 then ''0.00 (Sheet empty)''
              else (case range_bound start_date of
                      Inl e \<Rightarrow> ''Error: '' @ exn_str e
                    | Inr start_dt \<Rightarrow>
                        (case range_bound end_date of
                           Inl e \<Rightarrow> ''Error: '' @ exn_str e
                         | Inr end_dt \<Rightarrow>
                             format_2f (scan_rows start_dt (map_option end_of_day end_dt)
                                          all_values (Fin 0))))))"

section \<open>The orchestration loop (\<^verbatim>\<open>ai_engine.py\<close>)\<close>

text \<open>
  A tool call of a model turn. Its \<open>arguments\<close> are a JSON text; the model carries what
  \<open>json.loads\<close> makes of it: the text of the \<open>JSONDecodeError\<close>, or the decoded document,
  which is an object (the list of its members) or a value of another type (given by
  the name of its Python type).
\<close>

datatype json_doc = JObject "(string \<times> jval) list" | JOther string

record tool_call =
  tc_id :: string
  tc_name :: string
  tc_arguments :: "string + json_doc"

datatype role = System | User | Assistant | Tool

record message =
  role :: role
  content :: "string option"
  tool_call_id :: "string option"
  name :: "string option"
  tool_calls :: "tool_call list"

text \<open>The message of a response of the model service: a text, tool calls, or both.\<close>

record turn =
  turn_content :: "string option"
  turn_tool_calls :: "tool_call list"

definition model_dump :: "turn \<Rightarrow> message" where
  "model_dump t =
     \<lparr>role = Assistant, content = turn_content t, tool_call_id = None, name = None,
      tool_calls = turn_tool_calls t\<rparr>"

text \<open>
  The call \<open>f(**args)\<close> of a function with the given required and optional parameter
  names: a \<open>TypeError\<close> when \<open>args\<close> is no dictionary, when it has a key that is no
  parameter, or when a required parameter has no key. Otherwise the result is the
  dictionary as a lookup.
\<close>

definition quoted :: "string \<Rightarrow> string" where
  "quoted s = [CHR 0x27] @ s @ [CHR 0x27]"

fun name_list :: "string list \<Rightarrow> string" where
  "name_list [] = []"
| "name_list [a] = quoted a"
| "name_list [a, b] = quoted a @ '' and '' @ quoted b"
| "name_list [a, b, c] = quoted a @ '', '' @ quoted b @ '', and '' @ quoted c"
| "name_list (a # bs) = quoted a @ '', '' @ name_list bs"

definition missing_text :: "string \<Rightarrow> string list \<Rightarrow> string" where
  "missing_text f ms =
     f @ ''() missing '' @ digits (length ms) @ '' required positional argument''
       @ (if length ms = 1 then '''' else ''s'') @ '': '' @ name_list ms"

definition bind_args ::
  "string \<Rightarrow> string list \<Rightarrow> string list \<Rightarrow> json_doc \<Rightarrow> exn + (string \<Rightarrow> jval option)" where
  "bind_args f required optional doc =
     (case doc of
        JOther ty \<Rightarrow>
          Inl (Exception (''tools.'' @ f @ ''() argument after ** must be a mapping, not '' @ ty))
      | JObject args \<Rightarrow>
          (case filter (\<lambda>k. k \<notin> set (required @ optional)) (map fst args) of
             k # ks \<Rightarrow> Inl (Exception (f @ ''() got an unexpected keyword argument '' @ quoted k))
           | [] \<Rightarrow>
               (case filter (\<lambda>p. p \<notin> set (map fst args)) required of
                  [] \<Rightarrow> Inr (map_of args)
                | m # ms \<Rightarrow> Inl (Exception (missing_text f (m # ms))))))"

text \<open>The value of a parameter after binding: the argument, or the default.\<close>

definition arg :: "(string \<Rightarrow> jval option) \<Rightarrow> string \<Rightarrow> jval \<Rightarrow> jval" where
  "arg b p dflt = (case b p of Some v \<Rightarrow> v | None \<Rightarrow> dflt)"

text \<open>
  The four calendar tools work on the calendar service alone. They enter as one
  parameter \<open>cal\<close>: for a tool name, the decoded arguments and the state of the
  calendar, the text returned or the exception raised, and the calendar afterwards.
  (\<open>tools.py\<close> defines \<open>create_calendar_event\<close>; for a name that the module does not
  define, the lookup \<open>tools.f\<close> raises \<open>AttributeError\<close>, which is one such exception.)
\<close>

type_synonym 'c cal_tools = "string \<Rightarrow> json_doc \<Rightarrow> 'c \<Rightarrow> (exn + string) \<times> 'c"

definition call_calendar ::
  "'c cal_tools \<Rightarrow> string \<Rightarrow> json_doc \<Rightarrow> 'c world \<Rightarrow> (exn + string) \<times> 'c world" where
  "call_calendar cal function_name args w =
     (let (r, c) = cal function_name args (calendar w) in (r, w\<lparr>calendar := c\<rparr>))"

text \<open>
  The chain \<open>if function_name == ... elif ...\<close> of the loop body, from the initial
  \<open>tool_result = "Error: Unknown tool"\<close> on: the text of the tool, or the exception
  that the call raises.
\<close>

definition call_tool ::
  "'c cal_tools \<Rightarrow> string \<Rightarrow> json_doc \<Rightarrow> 'c world \<Rightarrow> (exn + string) \<times> 'c world" where
  "call_tool cal function_name args w =
     (if function_name = ''get_sheet_url'' then (Inr (get_sheet_url w), w)
      else if function_name = ''append_to_sheet'' then
        (case bind_args ''append_to_sheet'' [''item_name'', ''amount'', ''category'']
                [''date'', ''currency'', ''note''] args of
           Inl e \<Rightarrow> (Inl e, w)
         | Inr b \<Rightarrow>
             (let (r, w') = append_to_sheet (arg b ''item_name'' JNull) (arg b ''amount'' JNull)
                              (arg b ''category'' JNull) (arg b ''date'' JNull)
                              (arg b ''currency'' (JStr euro)) (arg b ''note'' (JStr [])) w
              in (Inr r, w')))
      else if function_name = ''create_calendar_event'' then call_calendar cal function_name args w
      else if function_name = ''list_calendar_events'' then call_calendar cal function_name args w
      else if function_name = ''update_calendar_event'' then call_calendar cal function_name args w
      else if function_name = ''delete_calendar_event'' then call_calendar cal function_name args w
      else if function_name = ''delete_last_row'' then
        (let (r, w') = delete_last_row w in (Inr r, w'))
      else if function_name = ''delete_specific_row'' then
        (case bind_args ''delete_specific_row'' [''row_id''] [] args of
           Inl e \<Rightarrow> (Inl e, w)
         | Inr b \<Rightarrow> (let (r, w') = delete_specific_row (arg b ''row_id'' JNull) w in (Inr r, w')))
      else if function_name = ''update_specific_row'' then
        (case bind_args ''update_specific_row'' [''row_id'']
                [''item_name'', ''amount'', ''category'', ''date'', ''currency'', ''note''] args of
           Inl e \<Rightarrow> (Inl e, w)
         | Inr b \<Rightarrow>
             (let (r, w') = update_specific_row (arg b ''row_id'' JNull) (arg b ''item_name'' JNull)
                              (arg b ''amount'' JNull) (arg b ''category'' JNull)
                              (arg b ''date'' JNull) (arg b ''currency'' (JStr euro))
                              (arg b ''note'' JNull) w
              in (Inr r, w')))
      else if function_name = ''calculate_total'' then
        (case bind_args ''calculate_total'' [] [''start_date'', ''end_date''] args of
           Inl e \<Rightarrow> (Inl e, w)
         | Inr b \<Rightarrow>
             (Inr (calculate_total (arg b ''start_date'' JNull) (arg b ''end_date'' JNull) w), w))
      else (Inr ''Error: Unknown tool'', w))"

text \<open>The message appended for a tool call and the text of its tool.\<close>

definition tool_message :: "tool_call \<Rightarrow> string \<Rightarrow> message" where
  "tool_message tc tool_result =
     \<lparr>role = Tool, content = Some tool_result, tool_call_id = Some (tc_id tc),
      name = Some (tc_name tc), tool_calls = []\<rparr>"

text \<open>
  What a run of \<open>get_agent_response\<close> does outside the conversation is kept in a trace:
  a request to the model service (with the tool schemas or without), and the start
  of the loop body for a tool call.
\<close>

datatype event = ModelCall bool | ToolRun string

text \<open>
  The body of the loop \<open>for tool_call in response_message.tool_calls\<close> up to the
  text of the tool: the arguments are decoded, then the tool is called.
\<close>

definition dispatch :: "'c cal_tools \<Rightarrow> tool_call \<Rightarrow> 'c world \<Rightarrow> (exn + string) \<times> 'c world" where
  "dispatch cal tc w =
     (case tc_arguments tc of
        Inl d \<Rightarrow> (Inl (Exception d), w)
      | Inr args \<Rightarrow> call_tool cal (tc_name tc) args w)"

text \<open>
  The loop. It ends with the exception that left it, if one did, the conversation,
  the world and the trace.
\<close>

fun run_tools ::
  "'c cal_tools \<Rightarrow> tool_call list \<Rightarrow> message list \<Rightarrow> 'c world \<Rightarrow> event list \<Rightarrow>
     exn option \<times> message list \<times> 'c world \<times> event list" where
  "run_tools cal [] h w tr = (None, h, w, tr)"
| "run_tools cal (tc # tcs) h w tr =
     (case dispatch cal tc w of
        (Inl e, w') \<Rightarrow> (Some e, h, w', tr @ [ToolRun (tc_name tc)])
      | (Inr tool_result, w') \<Rightarrow>
          run_tools cal tcs (h @ [tool_message tc tool_result]) w'
            (tr @ [ToolRun (tc_name tc)]))"

text \<open>The three \<open>except\<close> clauses of \<open>get_agent_response\<close>.\<close>

definition quota_advisory :: string where
  "quota_advisory = warning_sign @ '' Error: OpenAI API Quota Exceeded (429). Please check your billing details at platform.openai.com.''"

definition auth_advisory :: string where
  "auth_advisory = warning_sign @ '' Error: OpenAI API Key is invalid. Please check your .env file.''"

fun advisory :: "exn \<Rightarrow> string" where
  "advisory (RateLimitError d) = quota_advisory"
| "advisory (AuthenticationError d) = auth_advisory"
| "advisory (Exception d) = warning_sign @ '' System error: '' @ d"

text \<open>
  The model service is the parameter \<open>llm\<close>: for a request (with the tool schemas in
  round 1, without in round 2) and the conversation sent, the message of the response
  or the exception raised. The client is built with \<open>max_retries=0\<close>: a request is one
  attempt.
\<close>

type_synonym model_service = "bool \<Rightarrow> message list \<Rightarrow> exn + turn"

definition max_retries :: nat where
  "max_retries = 0"

text \<open>
  \<open>get_agent_response\<close> returns the reply (\<open>None\<close> when the message of the model has no
  text); the conversation list, which it extends in place, the world and the trace
  are returned with it.
\<close>

definition get_agent_response ::
  "model_service \<Rightarrow> 'c cal_tools \<Rightarrow> message list \<Rightarrow> 'c world \<Rightarrow>
     string option \<times> message list \<times> 'c world \<times> event list" where
  "get_agent_response llm cal conversation_history w =
     (case llm True conversation_history of
        Inl e \<Rightarrow> (Some (advisory e), conversation_history, w, [ModelCall True])
      | Inr response_message \<Rightarrow>
          if turn_tool_calls response_message \<noteq> [] then
            (case run_tools cal (turn_tool_calls response_message)
                    (conversation_history @ [model_dump response_message]) w [ModelCall True] of
               (Some e, h, w', tr) \<Rightarrow> (Some (advisory e), h, w', tr)
             | (None, h, w', tr) \<Rightarrow>
                 (case llm False h of
                    Inl e \<Rightarrow> (Some (advisory e), h, w', tr @ [ModelCall False])
                  | Inr final_response \<Rightarrow>
                      (turn_content final_response, h, w', tr @ [ModelCall False])))
          else (turn_content response_message, conversation_history, w, [ModelCall True]))"

text \<open>The parts of what \<open>get_agent_response\<close> returns.\<close>

definition reply_of :: "string option \<times> message list \<times> 'c world \<times> event list \<Rightarrow> string option" where
  "reply_of r = fst r"

definition history_of :: "string option \<times> message list \<times> 'c world \<times> event list \<Rightarrow> message list" where
  "history_of r = fst (snd r)"

definition world_of :: "string option \<times> message list \<times> 'c world \<times> event list \<Rightarrow> 'c world" where
  "world_of r = fst (snd (snd r))"

definition trace_of :: "string option \<times> message list \<times> 'c world \<times> event list \<Rightarrow> event list" where
  "trace_of r = snd (snd (snd r))"

section \<open>The conversation store (\<^verbatim>\<open>main.py\<close>)\<close>

text \<open>
  The state of the bot: the conversations in memory, by user, the file \<open>memory.json\<close>
  (absent, unreadable, or holding a store), whether the file can be written, and the
  world of the tools.
\<close>

datatype 'a disk_file = Absent | Unreadable | Holding 'a

record 'c bot =
  user_conversations :: "int \<Rightarrow> message list option"
  memory_file :: "(int \<Rightarrow> message list option) disk_file"
  writable :: bool
  outside :: "'c world"

definition load_memory :: "'c bot \<Rightarrow> 'c bot" where
  "load_memory b =
     b\<lparr>user_conversations := (case memory_file b of Holding m \<Rightarrow> m | _ \<Rightarrow> Map.empty)\<rparr>"

definition save_memory :: "'c bot \<Rightarrow> 'c bot" where
  "save_memory b = (if writable b then b\<lparr>memory_file := Holding (user_conversations b)\<rparr> else b)"

text \<open>
  \<open>SYSTEM_PROMPT.format(current_time=...)\<close>: the template is the list of its texts
  between the places where the time goes.
\<close>

fun format_prompt :: "string list \<Rightarrow> string \<Rightarrow> string" where
  "format_prompt [] t = []"
| "format_prompt [p] t = p"
| "format_prompt (p # ps) t = p @ t @ format_prompt ps t"

definition system_message :: "string list \<Rightarrow> datetime \<Rightarrow> message" where
  "system_message SYSTEM_PROMPT t =
     \<lparr>role = System, content = Some (format_prompt SYSTEM_PROMPT (strftime_YmdHM t)),
      tool_call_id = None, name = None, tool_calls = []\<rparr>"

definition text_message :: "role \<Rightarrow> string option \<Rightarrow> message" where
  "text_message r c = \<lparr>role = r, content = c, tool_call_id = None, name = None, tool_calls = []\<rparr>"

text \<open>
  The handlers return the texts given to \<open>reply_text\<close> and the state of the bot. The
  transport refuses a text that is missing or empty; \<open>handle_message\<close> then sends its
  apology.
\<close>

definition start :: "string list \<Rightarrow> int \<Rightarrow> string \<Rightarrow> 'c bot \<Rightarrow> string list \<times> 'c bot" where
  "start SYSTEM_PROMPT user_id username b =
     (let (t, w) = now (outside b);
          b' = b\<lparr>user_conversations := (user_conversations b)(user_id \<mapsto> [system_message SYSTEM_PROMPT t]),
                 outside := w\<rparr>
      in ([''Hello '' @ username @ ''! I am My Financial Assistant. I can help you with bookkeeping or scheduling.''],
          b'))"

definition ensure_history :: "string list \<Rightarrow> int \<Rightarrow> 'c bot \<Rightarrow> 'c bot" where
  "ensure_history SYSTEM_PROMPT user_id b =
     (if user_conversations b user_id = None
      then (let (t, w) = now (outside b)
            in save_memory
                 (b\<lparr>user_conversations :=
                      (user_conversations b)(user_id \<mapsto> [system_message SYSTEM_PROMPT t]),
                    outside := w\<rparr>))
      else b)"

definition append_message :: "int \<Rightarrow> message \<Rightarrow> 'c bot \<Rightarrow> 'c bot" where
  "append_message user_id m b =
     (case user_conversations b user_id of
        None \<Rightarrow> b
      | Some conv \<Rightarrow> b\<lparr>user_conversations := (user_conversations b)(user_id \<mapsto> conv @ [m])\<rparr>)"

definition handle_message ::
  "string option \<Rightarrow> string list \<Rightarrow> model_service \<Rightarrow> 'c cal_tools \<Rightarrow> int \<Rightarrow> string \<Rightarrow> 'c bot \<Rightarrow>
     string list \<times> 'c bot" where
  "handle_message auth_id_str SYSTEM_PROMPT llm cal user_id user_text b =
     (if Some (str_int user_id) \<noteq> auth_id_str
      then ([no_entry_sign @ '' Unauthorized access. Please contact the administrator.''], b)
      else
        (let b1 = ensure_history SYSTEM_PROMPT user_id b;
             b2 = save_memory (append_message user_id (text_message User (Some user_text)) b1);
             (ai_reply, h, w, tr) =
               get_agent_response llm cal (the (user_conversations b2 user_id)) (outside b2);
             b3 = save_memory
                    (b2\<lparr>user_conversations :=
                          (user_conversations b2)(user_id \<mapsto> h @ [text_message Assistant ai_reply]),
                        outside := w\<rparr>)
         in case ai_reply of
              None \<Rightarrow> ([''An internal error occurred while processing your request.''], b3)
            | Some r \<Rightarrow>
                if r = [] then ([''An internal error occurred while processing your request.''], b3)
                else ([r], b3)))"

text \<open>
  The invariant of the store: a conversation has a first message, and its role is
  \<open>system\<close>.
\<close>

definition conversation_ok :: "message list \<Rightarrow> bool" where
  "conversation_ok c = (c \<noteq> [] \<and> role (hd c) = System)"

definition store_ok :: "'c bot \<Rightarrow> bool" where
  "store_ok b = (\<forall>u c. user_conversations b u = Some c \<longrightarrow> conversation_ok c)"

section \<open>Example inputs\<close>

definition example_clock :: "nat \<Rightarrow> datetime" where
  "example_clock n = \<lparr>year = 2026, month = 1, day = 21, hour = 9, minute = 30, second = n mod 60\<rparr>"

text \<open>A reachable ledger that holds the given rows, in a grid of a thousand rows.\<close>

definition ledger :: "string list list \<Rightarrow> unit world" where
  "ledger rows =
     \<lparr>sheet = rows, grid_rows = 1000, sheet_fault = None, api_reject = ''APIError'',
      sheet_id = Some ''ledger-1'', clock = example_clock, ticks = 0, calendar = ()\<rparr>"

definition example_rows :: "string list list" where
  "example_rows =
     [[''2026-01-05'', ''Coffee'', ''3.50'' @ euro], [''2026-02-01'', ''Rent'', ''800'' @ euro]]"

text \<open>A model service that answers round 1 and round 2 as scripted.\<close>

definition scripted :: "exn + turn \<Rightarrow> exn + turn \<Rightarrow> model_service" where
  "scripted round1 round2 tools h = (if tools then round1 else round2)"

definition says :: "string \<Rightarrow> turn" where
  "says s = \<lparr>turn_content = Some s, turn_tool_calls = []\<rparr>"

definition asks :: "tool_call list \<Rightarrow> turn" where
  "asks tcs = \<lparr>turn_content = None, turn_tool_calls = tcs\<rparr>"

definition request :: "string \<Rightarrow> string \<Rightarrow> (string \<times> jval) list \<Rightarrow> tool_call" where
  "request i f args = \<lparr>tc_id = i, tc_name = f, tc_arguments = Inr (JObject args)\<rparr>"

text \<open>The calendar tools that \<open>tools.py\<close> does not define.\<close>

definition no_calendar :: "unit cal_tools" where
  "no_calendar f args c =
     (Inl (Exception (''module '' @ quoted ''tools'' @ '' has no attribute '' @ quoted f)), c)"

text \<open>Two requests that their tools accept, and two of which the first lacks its arguments.\<close>

definition good_batch :: "tool_call list" where
  "good_batch = [request ''call_1'' ''get_sheet_url'' [], request ''call_2'' ''delete_last_row'' []]"

definition bad_batch :: "tool_call list" where
  "bad_batch = [request ''call_1'' ''append_to_sheet'' [], request ''call_2'' ''get_sheet_url'' []]"

definition unbound_batch :: "tool_call list" where
  "unbound_batch =
     [request ''call_1'' ''get_sheet_url'' [], request ''call_2'' ''delete_specific_row'' [],
      request ''call_3'' ''delete_last_row'' []]"

definition undo_batch :: "tool_call list" where
  "undo_batch = [request ''call_1'' ''delete_last_row'' []]"

definition url_batch :: "tool_call list" where
  "url_batch = [request ''call_1'' ''get_sheet_url'' []]"

text \<open>A bot that has met no user yet, and a template of two texts around the time.\<close>

definition fresh_bot :: "unit bot" where
  "fresh_bot =
     \<lparr>user_conversations = Map.empty, memory_file = Absent, writable = True,
      outside = ledger example_rows\<rparr>"

definition example_prompt :: "string list" where
  "example_prompt = [''You are an efficient Financial Assistant. Current time: '', ''.'']"

text \<open>A ledger table with a header row and one record of five cells.\<close>

definition full_rows :: "string list list" where
  "full_rows =
     [[''Date'', ''Item'', ''Amount'', ''Category'', ''Note''],
      [''2026-01-05 08:15:00'', ''Coffee'', ''3.50'' @ euro, ''Drinks'', ''morning'']]"

text \<open>A ledger table of three records without a header.\<close>

definition three_rows :: "string list list" where
  "three_rows =
     [[''2026-01-05'', ''Coffee'', ''3.50'' @ euro], [''2026-01-06'', ''Bread'', ''2'' @ euro],
      [''2026-02-01'', ''Rent'', ''800'' @ euro]]"

text \<open>The bounds of January 2026, as \<open>calculate_total\<close> compares them, and a lone record.\<close>

definition jan_first :: datetime where
  "jan_first = \<lparr>year = 2026, month = 1, day = 1, hour = 0, minute = 0, second = 0\<rparr>"

definition jan_last :: datetime where
  "jan_last = \<lparr>year = 2026, month = 1, day = 31, hour = 0, minute = 0, second = 0\<rparr>"

definition coffee_row :: "string list" where
  "coffee_row = [''2026-01-05'', ''Coffee'', ''3.50'' @ euro]"

definition greeting :: "message list" where
  "greeting = [text_message System (Some ''You are an efficient Financial Assistant.''),
               text_message User (Some ''hello'')]"

section \<open>The orchestration loop: properties\<close>

text \<open>
  Claim C2. When the turn of round 1 has no tool calls, \<open>get_agent_response\<close> returns
  the text of the turn as it is, leaves the conversation as it was (no tool message
  is appended), leaves the world as it was, and has made exactly one request to the
  model service: round 2 does not happen.
\<close>

theorem zero_tool_calls_short_circuit:
  assumes "llm True h = Inr t" and "turn_tool_calls t = []"
  shows "get_agent_response llm cal h w = (turn_content t, h, w, [ModelCall True])"
  using assms by (simp add: get_agent_response_def)

theorem zero_tool_calls_short_circuit_witness:
  "scripted (Inr (says ''Hi'')) (Inr (says ''unused'')) True greeting = Inr (says ''Hi'')
   \<and> turn_tool_calls (says ''Hi'') = []
   \<and> get_agent_response (scripted (Inr (says ''Hi'')) (Inr (says ''unused''))) no_calendar
         greeting (ledger example_rows)
       = (Some ''Hi'', greeting, ledger example_rows, [ModelCall True])"
proof -
  have a: "scripted (Inr (says ''Hi'')) (Inr (says ''unused'')) True greeting = Inr (says ''Hi'')"
    by (simp add: scripted_def)
  have b: "turn_tool_calls (says ''Hi'') = []"
    by (simp add: says_def)
  show ?thesis
    using zero_tool_calls_short_circuit [where llm = "scripted (Inr (says ''Hi'')) (Inr (says ''unused''))"
        and h = greeting and t = "says ''Hi''" and cal = no_calendar and w = "ledger example_rows"] a b
    by (simp add: says_def)
qed

text \<open>
  The loop over the tool calls. When no exception leaves it, it has appended one tool
  message for each call, in the order of the calls, and has run each call once; a
  loop over a list that continues another is the loop over the rest.
\<close>

lemma run_tools_completed:
  "run_tools cal tcs h w tr = (None, h', w', tr') \<Longrightarrow>
     \<exists>rs. length rs = length tcs \<and> h' = h @ map2 tool_message tcs rs \<and>
       tr' = tr @ map (\<lambda>tc. ToolRun (tc_name tc)) tcs"
proof (induction tcs arbitrary: h w tr)
  case Nil
  then show ?case by simp
next
  case (Cons tc tcs)
  obtain r w1 where d: "dispatch cal tc w = (r, w1)" by (cases "dispatch cal tc w")
  show ?case
  proof (cases r)
    case (Inl e)
    with Cons.prems d show ?thesis by simp
  next
    case (Inr x)
    with Cons.prems d have
      "run_tools cal tcs (h @ [tool_message tc x]) w1 (tr @ [ToolRun (tc_name tc)]) = (None, h', w', tr')"
      by simp
    from Cons.IH [OF this] obtain rs where rs: "length rs = length tcs"
      "h' = (h @ [tool_message tc x]) @ map2 tool_message tcs rs"
      "tr' = (tr @ [ToolRun (tc_name tc)]) @ map (\<lambda>tc. ToolRun (tc_name tc)) tcs"
      by blast
    then have "length (x # rs) = length (tc # tcs) \<and> h' = h @ map2 tool_message (tc # tcs) (x # rs) \<and>
       tr' = tr @ map (\<lambda>tc. ToolRun (tc_name tc)) (tc # tcs)" by simp
    then show ?thesis by blast
  qed
qed

lemma run_tools_append:
  "run_tools cal pre h w tr = (None, h1, w1, tr1) \<Longrightarrow>
     run_tools cal (pre @ post) h w tr = run_tools cal post h1 w1 tr1"
proof (induction pre arbitrary: h w tr)
  case Nil
  then show ?case by simp
next
  case (Cons tc pre)
  obtain r w2 where d: "dispatch cal tc w = (r, w2)" by (cases "dispatch cal tc w")
  show ?case
  proof (cases r)
    case (Inl e)
    with Cons.prems d show ?thesis by simp
  next
    case (Inr x)
    with Cons.prems d Cons.IH show ?thesis by simp
  qed
qed

lemma history_after_loop:
  assumes r1: "llm True h = Inr t" and tcs: "turn_tool_calls t \<noteq> []"
    and loop: "run_tools cal (turn_tool_calls t) (h @ [model_dump t]) w [ModelCall True] = (r, h1, w1, tr1)"
  shows "history_of (get_agent_response llm cal h w) = h1"
    and "world_of (get_agent_response llm cal h w) = w1"
  using assms by (auto simp: get_agent_response_def history_of_def world_of_def split: option.splits sum.splits)

text \<open>The definitions that a run on the example inputs unfolds.\<close>

lemmas run_eval = request_def dispatch_def call_tool_def get_sheet_url_def delete_last_row_def
      ledger_def open_sheet_def get_all_values_def example_rows_def delete_rows_def in_grid_def
      digits.simps digit_char_def bind_args_def scripted_def asks_def says_def get_agent_response_def
      history_of_def reply_of_def world_of_def trace_of_def missing_text_def

text \<open>
  Claim C1, as the code has it. The dispatch of a request can raise (its arguments do
  not decode, or do not bind to the parameters of its tool); the loop then ends there.
  When no dispatch of the turn raises, the conversation after \<open>get_agent_response\<close> is
  the conversation before, then the turn of the model, then exactly one message for
  each request, in the order of the requests, each of role \<open>tool\<close> and with the
  \<open>tool_call_id\<close> of its request.
\<close>

theorem tool_messages_in_request_order:
  assumes r1: "llm True h = Inr t" and tcs: "turn_tool_calls t \<noteq> []"
    and ok: "fst (run_tools cal (turn_tool_calls t) (h @ [model_dump t]) w [ModelCall True]) = None"
  shows "\<exists>rs. length rs = length (turn_tool_calls t) \<and>
           history_of (get_agent_response llm cal h w)
             = h @ model_dump t # map2 tool_message (turn_tool_calls t) rs \<and>
           (\<forall>i < length (turn_tool_calls t).
              role (history_of (get_agent_response llm cal h w) ! (length h + 1 + i)) = Tool \<and>
              tool_call_id (history_of (get_agent_response llm cal h w) ! (length h + 1 + i))
                = Some (tc_id (turn_tool_calls t ! i)))"
proof -
  obtain h1 w1 tr1 where loop:
    "run_tools cal (turn_tool_calls t) (h @ [model_dump t]) w [ModelCall True] = (None, h1, w1, tr1)"
    using ok by (cases "run_tools cal (turn_tool_calls t) (h @ [model_dump t]) w [ModelCall True]") auto
  from run_tools_completed [OF loop] obtain rs where
    rs: "length rs = length (turn_tool_calls t)"
      "h1 = (h @ [model_dump t]) @ map2 tool_message (turn_tool_calls t) rs"
    by blast
  have hist: "history_of (get_agent_response llm cal h w) = h @ model_dump t # map2 tool_message (turn_tool_calls t) rs"
    using history_after_loop(1) [where llm = llm and h = h and t = t, OF r1 tcs loop] rs(2) by simp
  have "\<forall>i < length (turn_tool_calls t).
      role ((h @ model_dump t # map2 tool_message (turn_tool_calls t) rs) ! (length h + 1 + i)) = Tool \<and>
      tool_call_id ((h @ model_dump t # map2 tool_message (turn_tool_calls t) rs) ! (length h + 1 + i))
        = Some (tc_id (turn_tool_calls t ! i))"
    using rs(1) by (simp add: nth_append tool_message_def)
  with hist rs(1) show ?thesis by auto
qed

text \<open>
  The theorem at a turn of two requests that their tools accept (\<open>get_sheet_url\<close>, then
  \<open>delete_last_row\<close>): the second tool message carries the identifier of the second
  request.
\<close>

theorem tool_messages_in_request_order_witness:
  "scripted (Inr (asks good_batch)) (Inr (says ''Done'')) True greeting = Inr (asks good_batch)
   \<and> turn_tool_calls (asks good_batch) \<noteq> []
   \<and> fst (run_tools no_calendar (turn_tool_calls (asks good_batch))
             (greeting @ [model_dump (asks good_batch)]) (ledger example_rows) [ModelCall True]) = None
   \<and> (\<exists>rs. length rs = length (turn_tool_calls (asks good_batch)) \<and>
          history_of (get_agent_response (scripted (Inr (asks good_batch)) (Inr (says ''Done'')))
                        no_calendar greeting (ledger example_rows))
            = greeting @ model_dump (asks good_batch) # map2 tool_message (turn_tool_calls (asks good_batch)) rs)
   \<and> role (history_of (get_agent_response (scripted (Inr (asks good_batch)) (Inr (says ''Done'')))
                          no_calendar greeting (ledger example_rows)) ! (length greeting + 1 + 1)) = Tool
   \<and> tool_call_id (history_of (get_agent_response (scripted (Inr (asks good_batch)) (Inr (says ''Done'')))
                          no_calendar greeting (ledger example_rows)) ! (length greeting + 1 + 1))
        = Some ''call_2''"
proof -
  have a: "scripted (Inr (asks good_batch)) (Inr (says ''Done'')) True greeting = Inr (asks good_batch)"
    by (simp add: scripted_def)
  have b: "turn_tool_calls (asks good_batch) \<noteq> []"
    by (simp add: asks_def good_batch_def)
  have c: "fst (run_tools no_calendar (turn_tool_calls (asks good_batch))
             (greeting @ [model_dump (asks good_batch)]) (ledger example_rows) [ModelCall True]) = None"
    by (simp add: good_batch_def run_eval)
  have n: "(1::nat) < length (turn_tool_calls (asks good_batch))"
    by (simp add: asks_def good_batch_def)
  have i: "tc_id (turn_tool_calls (asks good_batch) ! 1) = ''call_2''"
    by (simp add: asks_def good_batch_def request_def)
  from tool_messages_in_request_order [where llm = "scripted (Inr (asks good_batch)) (Inr (says ''Done''))"
      and h = greeting and t = "asks good_batch" and cal = no_calendar and w = "ledger example_rows", OF a b c]
  show ?thesis using a b c n i by auto
qed

text \<open>
  Claim C1 as stated fails: a turn of two requests, of which the first calls
  \<open>append_to_sheet\<close> with no arguments. The call raises \<open>TypeError\<close>, and the conversation
  ends with the turn of the model: no tool message is appended, for neither request.
\<close>

theorem unbound_request_leaves_no_tool_message:
  "length bad_batch = 2
   \<and> history_of (get_agent_response (scripted (Inr (asks bad_batch)) (Inr (says ''Done'')))
                   no_calendar greeting (ledger example_rows))
       = greeting @ [model_dump (asks bad_batch)]"
  by (simp add: bad_batch_def run_eval)

text \<open>
  A required parameter without an argument: the call \<open>f(**args)\<close> raises, and so does
  the dispatch of a request for one of the three tools that have required parameters.
  An exception raised by a dispatch ends the loop at once.
\<close>

lemma bind_args_missing:
  assumes "p \<in> set required" and "p \<notin> fst ` set args"
  shows "\<exists>d. bind_args f required optional (JObject args) = Inl (Exception d)"
proof (cases "filter (\<lambda>k. k \<notin> set (required @ optional)) (map fst args)")
  case (Cons k ks)
  then show ?thesis by (simp add: bind_args_def)
next
  case Nil
  from assms have "filter (\<lambda>p. p \<notin> set (map fst args)) required \<noteq> []"
    by (auto simp: filter_empty_conv)
  then obtain m ms where "filter (\<lambda>p. p \<notin> set (map fst args)) required = m # ms"
    by (cases "filter (\<lambda>p. p \<notin> set (map fst args)) required") auto
  with Nil show ?thesis by (simp add: bind_args_def)
qed

lemma dispatch_missing:
  assumes "tc_arguments tc = Inr (JObject args)" and "p \<notin> fst ` set args"
    and "tc_name tc = ''append_to_sheet'' \<and> p \<in> {''item_name'', ''amount'', ''category''}
         \<or> tc_name tc = ''delete_specific_row'' \<and> p = ''row_id''
         \<or> tc_name tc = ''update_specific_row'' \<and> p = ''row_id''"
  shows "\<exists>d. dispatch cal tc w = (Inl (Exception d), w)"
proof -
  from assms(3) consider
      (a) "tc_name tc = ''append_to_sheet''" "p \<in> set [''item_name'', ''amount'', ''category'']"
    | (d) "tc_name tc = ''delete_specific_row''" "p \<in> set [''row_id'']"
    | (u) "tc_name tc = ''update_specific_row''" "p \<in> set [''row_id'']"
    by auto
  then show ?thesis
  proof cases
    case a
    from bind_args_missing [OF a(2) assms(2)] obtain d where
      "bind_args ''append_to_sheet'' [''item_name'', ''amount'', ''category''] [''date'', ''currency'', ''note''] (JObject args) = Inl (Exception d)"
      by blast
    with a(1) assms(1) show ?thesis by (simp add: dispatch_def call_tool_def)
  next
    case d
    from bind_args_missing [OF d(2) assms(2)] obtain x where
      "bind_args ''delete_specific_row'' [''row_id''] [] (JObject args) = Inl (Exception x)"
      by blast
    with d(1) assms(1) show ?thesis by (simp add: dispatch_def call_tool_def)
  next
    case u
    from bind_args_missing [OF u(2) assms(2)] obtain x where
      "bind_args ''update_specific_row'' [''row_id''] [''item_name'', ''amount'', ''category'', ''date'', ''currency'', ''note''] (JObject args) = Inl (Exception x)"
      by blast
    with u(1) assms(1) show ?thesis by (simp add: dispatch_def call_tool_def)
  qed
qed

lemma run_tools_raise:
  assumes "run_tools cal pre h w tr = (None, h1, w1, tr1)" and "dispatch cal tc w1 = (Inl e, w2)"
  shows "run_tools cal (pre @ tc # post) h w tr = (Some e, h1, w2, tr1 @ [ToolRun (tc_name tc)])"
  using run_tools_append [OF assms(1), of "tc # post"] assms(2) by simp

text \<open>
  Claim C4, as the code has it. The loop has no handler of its own for exceptions. An
  exception that the dispatch of a request raises is not turned into a tool message:
  it leaves the loop and is caught by the \<open>except\<close> clauses of \<open>get_agent_response\<close>,
  which return the advisory text for it (for a \<open>TypeError\<close>, "System error" and the
  detail). The conversation then holds the turn of the model and the tool messages of
  the requests before this one, and nothing for this request or the later ones; the
  later requests are not run and round 2 does not happen. A request for
  \<open>append_to_sheet\<close>, \<open>delete_specific_row\<close> or \<open>update_specific_row\<close> that lacks a
  required argument is such a request: its dispatch raises.
\<close>

theorem raising_request_ends_the_run:
  "(llm True h = Inr t \<and> turn_tool_calls t = pre @ tc # post \<and>
    run_tools cal pre (h @ [model_dump t]) w [ModelCall True] = (None, h1, w1, tr1) \<and>
    dispatch cal tc w1 = (Inl e, w2)
    \<longrightarrow> get_agent_response llm cal h w
          = (Some (advisory e), h1, w2, tr1 @ [ToolRun (tc_name tc)]) \<and>
        (\<exists>rs. length rs = length pre \<and> h1 = h @ model_dump t # map2 tool_message pre rs) \<and>
        tr1 = ModelCall True # map (\<lambda>tc. ToolRun (tc_name tc)) pre)
   \<and> (tc_arguments tc' = Inr (JObject args) \<and> p \<notin> fst ` set args \<and>
        (tc_name tc' = ''append_to_sheet'' \<and> p \<in> {''item_name'', ''amount'', ''category''}
         \<or> tc_name tc' = ''delete_specific_row'' \<and> p = ''row_id''
         \<or> tc_name tc' = ''update_specific_row'' \<and> p = ''row_id'')
        \<longrightarrow> (\<exists>d. dispatch cal' tc' w' = (Inl (Exception d), w')))"
proof (intro conjI impI)
  assume a: "llm True h = Inr t \<and> turn_tool_calls t = pre @ tc # post \<and>
    run_tools cal pre (h @ [model_dump t]) w [ModelCall True] = (None, h1, w1, tr1) \<and>
    dispatch cal tc w1 = (Inl e, w2)"
  then have loop: "run_tools cal (turn_tool_calls t) (h @ [model_dump t]) w [ModelCall True]
      = (Some e, h1, w2, tr1 @ [ToolRun (tc_name tc)])"
    using run_tools_raise [of cal pre "h @ [model_dump t]" w "[ModelCall True]" h1 w1 tr1 tc e w2 post]
    by simp
  from a have ne: "turn_tool_calls t \<noteq> []" by simp
  from a loop ne show "get_agent_response llm cal h w
          = (Some (advisory e), h1, w2, tr1 @ [ToolRun (tc_name tc)])"
    by (simp add: get_agent_response_def)
  from a run_tools_completed [of cal pre "h @ [model_dump t]" w "[ModelCall True]" h1 w1 tr1]
  show "\<exists>rs. length rs = length pre \<and> h1 = h @ model_dump t # map2 tool_message pre rs"
    by auto
  from a run_tools_completed [of cal pre "h @ [model_dump t]" w "[ModelCall True]" h1 w1 tr1]
  show "tr1 = ModelCall True # map (\<lambda>tc. ToolRun (tc_name tc)) pre"
    by auto
next
  assume "tc_arguments tc' = Inr (JObject args) \<and> p \<notin> fst ` set args \<and>
        (tc_name tc' = ''append_to_sheet'' \<and> p \<in> {''item_name'', ''amount'', ''category''}
         \<or> tc_name tc' = ''delete_specific_row'' \<and> p = ''row_id''
         \<or> tc_name tc' = ''update_specific_row'' \<and> p = ''row_id'')"
  then show "\<exists>d. dispatch cal' tc' w' = (Inl (Exception d), w')"
    using dispatch_missing [of tc' args p cal' w'] by blast
qed

text \<open>
  The theorem at a turn of three requests, of which the second calls
  \<open>delete_specific_row\<close> without \<open>row_id\<close>.
\<close>

lemma unbound_prefix:
  "run_tools no_calendar [request ''call_1'' ''get_sheet_url'' []]
       (greeting @ [model_dump (asks unbound_batch)]) (ledger example_rows) [ModelCall True]
     = (None,
        greeting @ [model_dump (asks unbound_batch),
          tool_message (request ''call_1'' ''get_sheet_url'' []) ''https://docs.google.com/spreadsheets/d/ledger-1''],
        ledger example_rows, [ModelCall True, ToolRun ''get_sheet_url''])"
  by (simp add: run_eval)

lemma unbound_dispatch:
  "dispatch no_calendar (request ''call_2'' ''delete_specific_row'' []) (ledger example_rows)
     = (Inl (Exception (missing_text ''delete_specific_row'' [''row_id''])),
        ledger example_rows)"
  by (simp add: request_def dispatch_def call_tool_def bind_args_def)

theorem raising_request_ends_the_run_witness:
  "scripted (Inr (asks unbound_batch)) (Inr (says ''Done'')) True greeting = Inr (asks unbound_batch)
   \<and> turn_tool_calls (asks unbound_batch)
       = [request ''call_1'' ''get_sheet_url'' []] @ request ''call_2'' ''delete_specific_row'' []
           # [request ''call_3'' ''delete_last_row'' []]
   \<and> run_tools no_calendar [request ''call_1'' ''get_sheet_url'' []]
         (greeting @ [model_dump (asks unbound_batch)]) (ledger example_rows) [ModelCall True]
       = (None,
          greeting @ [model_dump (asks unbound_batch),
            tool_message (request ''call_1'' ''get_sheet_url'' []) ''https://docs.google.com/spreadsheets/d/ledger-1''],
          ledger example_rows, [ModelCall True, ToolRun ''get_sheet_url''])
   \<and> dispatch no_calendar (request ''call_2'' ''delete_specific_row'' []) (ledger example_rows)
       = (Inl (Exception (missing_text ''delete_specific_row'' [''row_id''])),
          ledger example_rows)
   \<and> get_agent_response (scripted (Inr (asks unbound_batch)) (Inr (says ''Done''))) no_calendar
         greeting (ledger example_rows)
       = (Some (warning_sign @ '' System error: '' @ missing_text ''delete_specific_row'' [''row_id'']),
          greeting @ [model_dump (asks unbound_batch),
            tool_message (request ''call_1'' ''get_sheet_url'' []) ''https://docs.google.com/spreadsheets/d/ledger-1''],
          ledger example_rows,
          [ModelCall True, ToolRun ''get_sheet_url'', ToolRun ''delete_specific_row''])
   \<and> tc_arguments (request ''call_2'' ''delete_specific_row'' []) = Inr (JObject [])
   \<and> ''row_id'' \<notin> fst ` set ([] :: (string \<times> jval) list)
   \<and> tc_name (request ''call_2'' ''delete_specific_row'' []) = ''delete_specific_row''
   \<and> (\<exists>d. dispatch no_calendar (request ''call_2'' ''delete_specific_row'' []) (ledger example_rows)
            = (Inl (Exception d), ledger example_rows))"
proof -
  have a: "scripted (Inr (asks unbound_batch)) (Inr (says ''Done'')) True greeting = Inr (asks unbound_batch)"
    by (simp add: scripted_def)
  have b: "turn_tool_calls (asks unbound_batch)
       = [request ''call_1'' ''get_sheet_url'' []] @ request ''call_2'' ''delete_specific_row'' []
           # [request ''call_3'' ''delete_last_row'' []]"
    by (simp add: asks_def unbound_batch_def)
  have c: "tc_arguments (request ''call_2'' ''delete_specific_row'' []) = Inr (JObject [])"
    "tc_name (request ''call_2'' ''delete_specific_row'' []) = ''delete_specific_row''"
    by (simp_all add: request_def)
  from raising_request_ends_the_run [where llm = "scripted (Inr (asks unbound_batch)) (Inr (says ''Done''))"
      and h = greeting and t = "asks unbound_batch" and cal = no_calendar and w = "ledger example_rows"
      and pre = "[request ''call_1'' ''get_sheet_url'' []]" and tc = "request ''call_2'' ''delete_specific_row'' []"
      and post = "[request ''call_3'' ''delete_last_row'' []]"
      and ?h1.0 = "greeting @ [model_dump (asks unbound_batch),
            tool_message (request ''call_1'' ''get_sheet_url'' []) ''https://docs.google.com/spreadsheets/d/ledger-1'']"
      and ?w1.0 = "ledger example_rows" and ?tr1.0 = "[ModelCall True, ToolRun ''get_sheet_url'']"
      and e = "Exception (missing_text ''delete_specific_row'' [''row_id''])"
      and ?w2.0 = "ledger example_rows"
      and tc' = "request ''call_2'' ''delete_specific_row'' []" and args = "[]" and p = "''row_id''"
      and cal' = no_calendar and w' = "ledger example_rows"]
  show ?thesis using a b c unbound_prefix unbound_dispatch by simp
qed

text \<open>
  Claim C4 as stated fails: a turn whose first request calls \<open>delete_specific_row\<close>
  without \<open>row_id\<close> and whose second request calls \<open>delete_last_row\<close>. No tool message
  with an error text is appended, the second request is not run, round 2 does not
  happen, and the reply is the text for a system error.
\<close>

theorem missing_argument_is_not_a_tool_result:
  "get_agent_response (scripted (Inr (asks (tl unbound_batch))) (Inr (says ''Done''))) no_calendar
      greeting (ledger example_rows)
    = (Some (warning_sign @ '' System error: '' @ missing_text ''delete_specific_row'' [''row_id'']),
       greeting @ [model_dump (asks (tl unbound_batch))],
       ledger example_rows,
       [ModelCall True, ToolRun ''delete_specific_row''])"
  by (simp add: unbound_batch_def request_def dispatch_def call_tool_def bind_args_def scripted_def asks_def get_agent_response_def)

text \<open>
  Claim C3, as the code has it. Both requests to the model service stand in the same
  \<open>try\<close>. A failure of the request of round 1 ends the run at once: the reply is the
  advisory text, the conversation and the world are as they were (no tool is
  dispatched), and the trace is that one request (no round 2, no second attempt). A
  failure of the request of round 2 comes after the tools of the turn have run: the
  reply is the advisory text, the conversation holds the turn and its tool messages,
  and the trace ends with the one request of round 2. The advisory text is fixed for
  a rate limit and for an authentication failure, and is "System error" followed by
  the detail of the error for any other failure.
\<close>

theorem model_failure_ends_the_run:
  "(llm True h = Inl e
      \<longrightarrow> get_agent_response llm cal h w = (Some (advisory e), h, w, [ModelCall True]))
   \<and> (llm True h = Inr t \<and> turn_tool_calls t \<noteq> [] \<and>
        run_tools cal (turn_tool_calls t) (h @ [model_dump t]) w [ModelCall True]
          = (None, h1, w1, tr1) \<and>
        llm False h1 = Inl e'
      \<longrightarrow> get_agent_response llm cal h w = (Some (advisory e'), h1, w1, tr1 @ [ModelCall False]) \<and>
          tr1 = ModelCall True # map (\<lambda>tc. ToolRun (tc_name tc)) (turn_tool_calls t))
   \<and> advisory (RateLimitError d) = quota_advisory
   \<and> advisory (AuthenticationError d) = auth_advisory
   \<and> advisory (Exception d) = warning_sign @ '' System error: '' @ d"
proof (intro conjI impI)
  assume "llm True h = Inl e"
  then show "get_agent_response llm cal h w = (Some (advisory e), h, w, [ModelCall True])"
    by (simp add: get_agent_response_def)
next
  assume a: "llm True h = Inr t \<and> turn_tool_calls t \<noteq> [] \<and>
        run_tools cal (turn_tool_calls t) (h @ [model_dump t]) w [ModelCall True]
          = (None, h1, w1, tr1) \<and>
        llm False h1 = Inl e'"
  then show "get_agent_response llm cal h w = (Some (advisory e'), h1, w1, tr1 @ [ModelCall False])"
    by (simp add: get_agent_response_def)
  from a run_tools_completed [of cal "turn_tool_calls t" "h @ [model_dump t]" w "[ModelCall True]" h1 w1 tr1]
  show "tr1 = ModelCall True # map (\<lambda>tc. ToolRun (tc_name tc)) (turn_tool_calls t)"
    by auto
qed simp_all

text \<open>
  The theorem at a rate limit in round 1, and at an authentication failure in round 2
  after a call of \<open>get_sheet_url\<close>.
\<close>

lemma url_run:
  "run_tools no_calendar (turn_tool_calls (asks url_batch)) (greeting @ [model_dump (asks url_batch)])
       (ledger example_rows) [ModelCall True]
     = (None,
        greeting @ [model_dump (asks url_batch),
          tool_message (request ''call_1'' ''get_sheet_url'' []) ''https://docs.google.com/spreadsheets/d/ledger-1''],
        ledger example_rows, [ModelCall True, ToolRun ''get_sheet_url''])"
  by (simp add: url_batch_def run_eval)

theorem model_failure_ends_the_run_witness:
  "scripted (Inl (RateLimitError ''429'')) (Inr (says ''unused'')) True greeting = Inl (RateLimitError ''429'')
   \<and> get_agent_response (scripted (Inl (RateLimitError ''429'')) (Inr (says ''unused''))) no_calendar
         greeting (ledger example_rows)
       = (Some quota_advisory, greeting, ledger example_rows, [ModelCall True])
   \<and> scripted (Inr (asks url_batch)) (Inl (AuthenticationError ''401'')) True greeting = Inr (asks url_batch)
   \<and> turn_tool_calls (asks url_batch) \<noteq> []
   \<and> run_tools no_calendar (turn_tool_calls (asks url_batch)) (greeting @ [model_dump (asks url_batch)])
         (ledger example_rows) [ModelCall True]
       = (None,
          greeting @ [model_dump (asks url_batch),
            tool_message (request ''call_1'' ''get_sheet_url'' []) ''https://docs.google.com/spreadsheets/d/ledger-1''],
          ledger example_rows, [ModelCall True, ToolRun ''get_sheet_url''])
   \<and> scripted (Inr (asks url_batch)) (Inl (AuthenticationError ''401'')) False
         (greeting @ [model_dump (asks url_batch),
            tool_message (request ''call_1'' ''get_sheet_url'' []) ''https://docs.google.com/spreadsheets/d/ledger-1''])
       = Inl (AuthenticationError ''401'')
   \<and> get_agent_response (scripted (Inr (asks url_batch)) (Inl (AuthenticationError ''401''))) no_calendar
         greeting (ledger example_rows)
       = (Some auth_advisory,
          greeting @ [model_dump (asks url_batch),
            tool_message (request ''call_1'' ''get_sheet_url'' []) ''https://docs.google.com/spreadsheets/d/ledger-1''],
          ledger example_rows, [ModelCall True, ToolRun ''get_sheet_url'', ModelCall False])"
proof -
  have a: "scripted (Inl (RateLimitError ''429'')) (Inr (says ''unused'')) True greeting = Inl (RateLimitError ''429'')"
    by (simp add: scripted_def)
  have b: "scripted (Inr (asks url_batch)) (Inl (AuthenticationError ''401'')) True greeting = Inr (asks url_batch)"
    by (simp add: scripted_def)
  have c: "turn_tool_calls (asks url_batch) \<noteq> []"
    by (simp add: asks_def url_batch_def)
  have d: "scripted (Inr (asks url_batch)) (Inl (AuthenticationError ''401'')) False
         (greeting @ [model_dump (asks url_batch),
            tool_message (request ''call_1'' ''get_sheet_url'' []) ''https://docs.google.com/spreadsheets/d/ledger-1''])
       = Inl (AuthenticationError ''401'')"
    by (simp add: scripted_def)
  have first: "get_agent_response (scripted (Inl (RateLimitError ''429'')) (Inr (says ''unused''))) no_calendar
         greeting (ledger example_rows)
       = (Some quota_advisory, greeting, ledger example_rows, [ModelCall True])"
    using model_failure_ends_the_run [where llm = "scripted (Inl (RateLimitError ''429'')) (Inr (says ''unused''))"
      and h = greeting and e = "RateLimitError ''429''" and cal = no_calendar and w = "ledger example_rows"] a
    by simp
  have second: "get_agent_response (scripted (Inr (asks url_batch)) (Inl (AuthenticationError ''401''))) no_calendar
         greeting (ledger example_rows)
       = (Some auth_advisory,
          greeting @ [model_dump (asks url_batch),
            tool_message (request ''call_1'' ''get_sheet_url'' []) ''https://docs.google.com/spreadsheets/d/ledger-1''],
          ledger example_rows, [ModelCall True, ToolRun ''get_sheet_url'', ModelCall False])"
    using model_failure_ends_the_run [where llm = "scripted (Inr (asks url_batch)) (Inl (AuthenticationError ''401''))"
      and h = greeting and t = "asks url_batch" and cal = no_calendar and w = "ledger example_rows"
      and ?h1.0 = "greeting @ [model_dump (asks url_batch),
            tool_message (request ''call_1'' ''get_sheet_url'' []) ''https://docs.google.com/spreadsheets/d/ledger-1'']"
      and ?w1.0 = "ledger example_rows" and ?tr1.0 = "[ModelCall True, ToolRun ''get_sheet_url'']"
      and e' = "AuthenticationError ''401''"] b c d url_run
    by simp
  show ?thesis using a b c d url_run first second by simp
qed

text \<open>
  Claim C3 as stated fails: the model asks for \<open>delete_last_row\<close>, and the request of
  round 2 meets the rate limit. The reply is the advisory text for the quota, yet the
  run has reached the dispatch of the tools (the last row of the ledger is gone) and
  round 2 was entered.
\<close>

theorem rate_limit_after_dispatch:
  "get_agent_response (scripted (Inr (asks undo_batch)) (Inl (RateLimitError ''429''))) no_calendar
      greeting (ledger example_rows)
    = (Some quota_advisory,
       greeting @ [model_dump (asks undo_batch),
         tool_message (request ''call_1'' ''delete_last_row'' []) (check_mark @ '' Deleted the last record (Row 2).'')],
       (ledger [[''2026-01-05'', ''Coffee'', ''3.50'' @ euro]])\<lparr>grid_rows := 999\<rparr>,
       [ModelCall True, ToolRun ''delete_last_row'', ModelCall False])"
  by (simp add: undo_batch_def run_eval)

section \<open>The conversation store: properties\<close>

text \<open>
  \<open>get_agent_response\<close> only appends to the conversation it is given, and the handlers
  of \<open>main.py\<close> change the conversation of the user they serve, by creating it or by
  appending to it.
\<close>

lemma run_tools_extends:
  "run_tools cal tcs h w tr = (r, h', w', tr') \<Longrightarrow> \<exists>ms. h' = h @ ms"
proof (induction tcs arbitrary: h w tr)
  case Nil
  then show ?case by simp
next
  case (Cons tc tcs)
  obtain x w1 where d: "dispatch cal tc w = (x, w1)" by (cases "dispatch cal tc w")
  show ?case
  proof (cases x)
    case (Inl e)
    with Cons.prems d show ?thesis by simp
  next
    case (Inr y)
    with Cons.prems d have
      "run_tools cal tcs (h @ [tool_message tc y]) w1 (tr @ [ToolRun (tc_name tc)]) = (r, h', w', tr')"
      by simp
    from Cons.IH [OF this] show ?thesis by auto
  qed
qed

lemma get_agent_response_extends:
  "\<exists>ms. history_of (get_agent_response llm cal h w) = h @ ms"
proof (cases "llm True h")
  case (Inl e)
  then show ?thesis by (simp add: get_agent_response_def history_of_def)
next
  case (Inr t)
  show ?thesis
  proof (cases "turn_tool_calls t = []")
    case True
    with Inr show ?thesis by (simp add: get_agent_response_def history_of_def)
  next
    case False
    obtain r h1 w1 tr1 where loop:
      "run_tools cal (turn_tool_calls t) (h @ [model_dump t]) w [ModelCall True] = (r, h1, w1, tr1)"
      by (cases "run_tools cal (turn_tool_calls t) (h @ [model_dump t]) w [ModelCall True]") auto
    from run_tools_extends [OF loop] obtain ms where "h1 = (h @ [model_dump t]) @ ms" by blast
    with history_after_loop(1) [where llm = llm and h = h and t = t, OF Inr False loop]
    show ?thesis by simp
  qed
qed

lemma conversation_ok_append: "conversation_ok c \<Longrightarrow> conversation_ok (c @ ms)"
  by (cases c) (simp_all add: conversation_ok_def)

lemma conversation_ok_system: "conversation_ok (system_message P t # ms)"
  by (simp add: conversation_ok_def system_message_def)

lemma save_memory_convs [simp]: "user_conversations (save_memory b) = user_conversations b"
  by (simp add: save_memory_def)

lemma store_ok_save [simp]: "store_ok (save_memory b) = store_ok b"
  by (simp add: store_ok_def)

lemma start_convs:
  "user_conversations (snd (start P uid uname b))
     = (user_conversations b)(uid \<mapsto> [system_message P (fst (now (outside b)))])"
  by (simp add: start_def split: prod.splits)

lemma ensure_history_cases:
  "user_conversations (ensure_history P uid b)
     = (case user_conversations b uid of
          None \<Rightarrow> (user_conversations b)(uid \<mapsto> [system_message P (fst (now (outside b)))])
        | Some c \<Rightarrow> user_conversations b)"
  by (auto simp: ensure_history_def split: prod.splits option.splits)

lemma handle_message_convs:
  assumes "Some (str_int uid) = auth"
  shows "\<exists>ms. user_conversations (snd (handle_message auth P llm cal uid user_text b))
     = (user_conversations b)(uid \<mapsto>
          (case user_conversations b uid of
             None \<Rightarrow> [system_message P (fst (now (outside b)))]
           | Some c \<Rightarrow> c) @ ms)"
proof -
  let ?b1 = "ensure_history P uid b"
  let ?c0 = "(case user_conversations b uid of
             None \<Rightarrow> [system_message P (fst (now (outside b)))]
           | Some c \<Rightarrow> c)"
  have c1: "user_conversations ?b1 uid = Some ?c0"
    by (simp add: ensure_history_cases split: option.splits)
  have m1: "user_conversations ?b1 = (user_conversations b)(uid \<mapsto> ?c0)"
    by (auto simp: ensure_history_cases split: option.splits)
  let ?b2 = "save_memory (append_message uid (text_message User (Some user_text)) ?b1)"
  have m2: "user_conversations ?b2 = (user_conversations b)(uid \<mapsto> ?c0 @ [text_message User (Some user_text)])"
    using c1 m1 by (simp add: append_message_def)
  obtain r h1 w1 tr1 where run:
    "get_agent_response llm cal (?c0 @ [text_message User (Some user_text)]) (outside ?b2) = (r, h1, w1, tr1)"
    by (cases "get_agent_response llm cal (?c0 @ [text_message User (Some user_text)]) (outside ?b2)") auto
  from get_agent_response_extends [of llm cal "?c0 @ [text_message User (Some user_text)]" "outside ?b2"] run
  obtain ms where ms: "h1 = (?c0 @ [text_message User (Some user_text)]) @ ms"
    by (auto simp: history_of_def)
  have "user_conversations (snd (handle_message auth P llm cal uid user_text b))
      = (user_conversations b)(uid \<mapsto> h1 @ [text_message Assistant r])"
    using assms m2 run by (simp add: handle_message_def Let_def split: option.splits)
  with ms show ?thesis by auto
qed

text \<open>
  Claim C5. A conversation created by \<open>/start\<close>, or by the first message of an
  authorized user, has a first message of role \<open>system\<close>. Appending a message keeps
  this, and \<open>handle_message\<close> only appends to the conversation that is there. So when
  every conversation of the store has at least one message and begins with a \<open>system\<close>
  message, the same holds after \<open>start\<close> and after \<open>handle_message\<close> (with the user,
  assistant and tool messages that the turn has appended).
\<close>

theorem conversation_begins_with_system:
  "(\<exists>c. user_conversations (snd (start P uid uname b)) uid = Some c \<and> conversation_ok c)
   \<and> (Some (str_int uid) = auth \<and> user_conversations b uid = None
        \<longrightarrow> (\<exists>c. user_conversations (snd (handle_message auth P llm cal uid user_text b)) uid = Some c \<and>
                 conversation_ok c))
   \<and> (conversation_ok c' \<longrightarrow> conversation_ok (c' @ [m]))
   \<and> (Some (str_int uid) = auth \<and> user_conversations b uid = Some c'
        \<longrightarrow> (\<exists>ms. user_conversations (snd (handle_message auth P llm cal uid user_text b)) uid
                    = Some (c' @ ms)))
   \<and> (store_ok b
        \<longrightarrow> store_ok (snd (start P uid uname b)) \<and>
            store_ok (snd (handle_message auth P llm cal uid user_text b)))"
proof (intro conjI impI)
  show "\<exists>c. user_conversations (snd (start P uid uname b)) uid = Some c \<and> conversation_ok c"
    by (simp add: start_convs conversation_ok_system)
next
  assume a: "Some (str_int uid) = auth \<and> user_conversations b uid = None"
  then obtain ms where
    "user_conversations (snd (handle_message auth P llm cal uid user_text b))
       = (user_conversations b)(uid \<mapsto> [system_message P (fst (now (outside b)))] @ ms)"
    using handle_message_convs [of uid auth P llm cal user_text b] by auto
  then show "\<exists>c. user_conversations (snd (handle_message auth P llm cal uid user_text b)) uid = Some c \<and>
                 conversation_ok c"
    by (simp add: conversation_ok_system)
next
  assume "conversation_ok c'"
  then show "conversation_ok (c' @ [m])" by (rule conversation_ok_append)
next
  assume a: "Some (str_int uid) = auth \<and> user_conversations b uid = Some c'"
  then show "\<exists>ms. user_conversations (snd (handle_message auth P llm cal uid user_text b)) uid = Some (c' @ ms)"
    using handle_message_convs [of uid auth P llm cal user_text b] by auto
next
  assume ok: "store_ok b"
  show "store_ok (snd (start P uid uname b))"
    using ok by (auto simp: store_ok_def start_convs conversation_ok_system)
  show "store_ok (snd (handle_message auth P llm cal uid user_text b))"
  proof (cases "Some (str_int uid) = auth")
    case False
    with ok show ?thesis by (simp add: handle_message_def)
  next
    case True
    from handle_message_convs [OF True, of P llm cal user_text b] obtain ms where
      ms: "user_conversations (snd (handle_message auth P llm cal uid user_text b))
       = (user_conversations b)(uid \<mapsto>
          (case user_conversations b uid of
             None \<Rightarrow> [system_message P (fst (now (outside b)))]
           | Some c \<Rightarrow> c) @ ms)"
      by blast
    have "conversation_ok ((case user_conversations b uid of
             None \<Rightarrow> [system_message P (fst (now (outside b)))]
           | Some c \<Rightarrow> c) @ ms)"
      using ok by (auto simp: store_ok_def conversation_ok_system conversation_ok_append split: option.splits)
    with ok ms show ?thesis by (auto simp: store_ok_def)
  qed
qed

text \<open>
  The theorem at a bot that has met no user, for the first message of user 42 and for
  a message after \<open>/start\<close>.
\<close>

lemma str_int_42: "str_int 42 = ''42''"
  by (simp add: str_int_def digits.simps digit_char_def)

theorem conversation_begins_with_system_witness:
  "Some (str_int 42) = Some ''42''
   \<and> user_conversations fresh_bot 42 = None
   \<and> (\<exists>c. user_conversations (snd (handle_message (Some ''42'') example_prompt
               (scripted (Inr (says ''Hi'')) (Inr (says ''unused''))) no_calendar 42 ''hello'' fresh_bot)) 42
             = Some c \<and> conversation_ok c)
   \<and> conversation_ok greeting
   \<and> conversation_ok (greeting @ [text_message Assistant (Some ''Hi'')])
   \<and> user_conversations (snd (start example_prompt 42 ''Ann'' fresh_bot)) 42
       = Some [system_message example_prompt (example_clock 0)]
   \<and> (\<exists>ms. user_conversations (snd (handle_message (Some ''42'') example_prompt
               (scripted (Inr (says ''Hi'')) (Inr (says ''unused''))) no_calendar 42 ''hello''
               (snd (start example_prompt 42 ''Ann'' fresh_bot)))) 42
             = Some ([system_message example_prompt (example_clock 0)] @ ms))
   \<and> store_ok fresh_bot
   \<and> store_ok (snd (start example_prompt 42 ''Ann'' fresh_bot))
   \<and> store_ok (snd (handle_message (Some ''42'') example_prompt
               (scripted (Inr (says ''Hi'')) (Inr (says ''unused''))) no_calendar 42 ''hello'' fresh_bot))"
proof -
  have a: "Some (str_int 42) = Some ''42''" by (simp add: str_int_42)
  have n: "user_conversations fresh_bot 42 = None" by (simp add: fresh_bot_def)
  have g: "conversation_ok greeting" by (simp add: greeting_def conversation_ok_def text_message_def)
  have s: "store_ok fresh_bot" by (simp add: store_ok_def fresh_bot_def)
  have st: "user_conversations (snd (start example_prompt 42 ''Ann'' fresh_bot)) 42
       = Some [system_message example_prompt (example_clock 0)]"
    by (simp add: start_convs fresh_bot_def now_def ledger_def)
  note first = conversation_begins_with_system [where uid = 42 and auth = "Some ''42''" and b = fresh_bot
      and P = example_prompt and llm = "scripted (Inr (says ''Hi'')) (Inr (says ''unused''))"
      and cal = no_calendar and user_text = "''hello''" and uname = "''Ann''" and c' = greeting
      and m = "text_message Assistant (Some ''Hi'')"]
  note again = conversation_begins_with_system [where uid = 42 and auth = "Some ''42''"
      and b = "snd (start example_prompt 42 ''Ann'' fresh_bot)"
      and P = example_prompt and llm = "scripted (Inr (says ''Hi'')) (Inr (says ''unused''))"
      and cal = no_calendar and user_text = "''hello''" and uname = "''Ann''"
      and c' = "[system_message example_prompt (example_clock 0)]"]
  show ?thesis using a n g s st first again by simp
qed

section \<open>The ledger tools: properties\<close>




text \<open>
  \<open>update_specific_row\<close> on a row that the ledger holds, in one equation; the row as it
  is read, and the overlay of the date.
\<close>

lemma overlay_length [simp]:
  "length (overlay r item_name amount category date currency note t) = length r"
  by (simp add: overlay_def Let_def)


lemma update_specific_row_ok:
  assumes "sheet_fault w = None" and "py_int row_id = Inr k" and "get_range k w = Inr [r]"
    and "r \<noteq> []"
  shows "update_specific_row row_id item_name amount category date currency note w
    = (let new_row = overlay (r @ replicate (5 - length r) []) item_name amount category date
                       currency note (strftime_HMS (clock w (ticks w)))
       in (check_mark @ '' Updated record #'' @ py_str row_id @ '': '' @ new_row ! 1
             @ '' '' @ new_row ! 2 @ '' ('' @ new_row ! 3 @ '')'',
           update_range k new_row (if truthy date then w\<lparr>ticks := Suc (ticks w)\<rparr> else w)))"
  using assms
  by (simp add: update_specific_row_def open_sheet_def now_def Let_def)

lemma get_range_row:
  assumes "get_range k w = Inr [r]"
  shows "in_grid k w \<and> nat k \<le> length (sheet w) \<and> 1 \<le> k \<and>
         r = trim_cells (take 5 (sheet w ! (nat k - 1))) \<and> r \<noteq> []"
  using assms by (auto simp: get_range_def in_grid_def Let_def split: if_splits)



lemma full_rows_row_2:
  "get_range 2 (ledger full_rows)
     = Inr [[''2026-01-05 08:15:00'', ''Coffee'', ''3.50'' @ euro, ''Drinks'', ''morning'']]"
  by (simp add: get_range_def in_grid_def ledger_def full_rows_def trim_cells_def euro_def)


text \<open>\<open>delete_specific_row\<close> on a ledger that can be opened, by cases.\<close>

lemma marks_differ: "check_mark @ a \<noteq> warning_sign @ b"
  by (simp add: check_mark_def warning_sign_def)

lemma delete_specific_row_cases:
  assumes "sheet_fault w = None" and "py_int row_id = Inr k"
  shows "delete_specific_row row_id w
    = (if k < 1 \<or> int (length (sheet w)) + 5 < k
       then (invalid_row_id row_id (length (sheet w)), w)
       else if in_grid k w
         then (check_mark @ '' Deleted record #'' @ py_str row_id @ ''.'',
               w\<lparr>sheet := take (nat k - 1) (sheet w) @ drop (nat k) (sheet w),
                  grid_rows := grid_rows w - 1\<rparr>)
         else (failed_to_delete (Exception (api_reject w)), w))"
  using assms
  by (simp add: delete_specific_row_def open_sheet_def get_all_values_def delete_rows_def Let_def)

text \<open>
  Claim C9. \<open>delete_specific_row\<close> checks the row number against the table it has just
  read: it must be at least 1 and at most the number of rows plus 5 (the slack). A
  number outside gives the message for an invalid row, and the table stays as it is;
  a number inside goes to the deletion, which takes the row out. Deleting row \<open>k\<close>
  twice: when \<open>k\<close> is still within the number of rows that the first deletion has
  left, the second deletion is no bounds error; it removes the row that has moved to
  position \<open>k\<close>. So a bounds error at the second deletion can only come when \<open>k\<close> is
  beyond the new number of rows.
\<close>

theorem delete_validates_row_id:
  assumes "sheet_fault w = None" and "py_int row_id = Inr k"
  shows "(k < 1 \<or> int (length (get_all_values w)) + 5 < k
            \<longrightarrow> delete_specific_row row_id w
                  = (invalid_row_id row_id (length (get_all_values w)), w))
     \<and> (1 \<le> k \<and> k \<le> int (length (get_all_values w)) + 5 \<and> in_grid k w
            \<longrightarrow> delete_specific_row row_id w
                  = (check_mark @ '' Deleted record #'' @ py_str row_id @ ''.'',
                     w\<lparr>sheet := take (nat k - 1) (sheet w) @ drop (nat k) (sheet w),
                        grid_rows := grid_rows w - 1\<rparr>))
     \<and> (1 \<le> k \<and> k \<le> int (length (get_all_values (snd (delete_specific_row row_id w)))) \<and>
          length (get_all_values w) \<le> grid_rows w
            \<longrightarrow> fst (delete_specific_row row_id w) = check_mark @ '' Deleted record #'' @ py_str row_id @ ''.'' \<and>
                length (get_all_values (snd (delete_specific_row row_id w)))
                  = length (get_all_values w) - 1 \<and>
                fst (delete_specific_row row_id (snd (delete_specific_row row_id w)))
                  = check_mark @ '' Deleted record #'' @ py_str row_id @ ''.'' \<and>
                fst (delete_specific_row row_id (snd (delete_specific_row row_id w)))
                  \<noteq> invalid_row_id row_id (length (get_all_values (snd (delete_specific_row row_id w)))) \<and>
                get_all_values (snd (delete_specific_row row_id (snd (delete_specific_row row_id w))))
                  = take (nat k - 1) (get_all_values (snd (delete_specific_row row_id w)))
                      @ drop (nat k) (get_all_values (snd (delete_specific_row row_id w))))"
proof (intro conjI impI)
  assume "k < 1 \<or> int (length (get_all_values w)) + 5 < k"
  then show "delete_specific_row row_id w = (invalid_row_id row_id (length (get_all_values w)), w)"
    by (simp add: delete_specific_row_cases [OF assms] get_all_values_def)
next
  assume "1 \<le> k \<and> k \<le> int (length (get_all_values w)) + 5 \<and> in_grid k w"
  then show "delete_specific_row row_id w
                  = (check_mark @ '' Deleted record #'' @ py_str row_id @ ''.'',
                     w\<lparr>sheet := take (nat k - 1) (sheet w) @ drop (nat k) (sheet w),
                        grid_rows := grid_rows w - 1\<rparr>)"
    by (simp add: delete_specific_row_cases [OF assms] get_all_values_def)
next
  assume a: "1 \<le> k \<and> k \<le> int (length (get_all_values (snd (delete_specific_row row_id w)))) \<and>
          length (get_all_values w) \<le> grid_rows w"
  let ?w1 = "snd (delete_specific_row row_id w)"
  have len1: "length (sheet ?w1) \<le> length (sheet w)"
    by (auto simp: delete_specific_row_cases [OF assms])
  with a have kn: "1 \<le> k" "k \<le> int (length (sheet w))" "length (sheet w) \<le> grid_rows w"
    by (auto simp: get_all_values_def)
  then have grid: "in_grid k w" by (simp add: in_grid_def)
  have first: "delete_specific_row row_id w
      = (check_mark @ '' Deleted record #'' @ py_str row_id @ ''.'',
         w\<lparr>sheet := take (nat k - 1) (sheet w) @ drop (nat k) (sheet w), grid_rows := grid_rows w - 1\<rparr>)"
    using kn grid by (simp add: delete_specific_row_cases [OF assms])
  have w1: "sheet_fault ?w1 = None" "length (sheet ?w1) = length (sheet w) - 1"
    "grid_rows ?w1 = grid_rows w - 1"
    using kn assms(1) by (auto simp: first)
  from a have k1: "k \<le> int (length (sheet ?w1))" by (simp add: get_all_values_def)
  with kn w1 have grid1: "in_grid k ?w1" by (auto simp: in_grid_def)
  have second: "delete_specific_row row_id ?w1
      = (check_mark @ '' Deleted record #'' @ py_str row_id @ ''.'',
         ?w1\<lparr>sheet := take (nat k - 1) (sheet ?w1) @ drop (nat k) (sheet ?w1),
              grid_rows := grid_rows ?w1 - 1\<rparr>)"
    using kn(1) k1 grid1 by (simp add: delete_specific_row_cases [OF w1(1) assms(2)])
  show "fst (delete_specific_row row_id w) = check_mark @ '' Deleted record #'' @ py_str row_id @ ''.''"
    by (simp add: first)
  show "length (get_all_values ?w1) = length (get_all_values w) - 1"
    using w1(2) by (simp add: get_all_values_def)
  show "fst (delete_specific_row row_id ?w1) = check_mark @ '' Deleted record #'' @ py_str row_id @ ''.''"
    by (simp add: second)
  show "fst (delete_specific_row row_id ?w1) \<noteq> invalid_row_id row_id (length (get_all_values ?w1))"
    unfolding second invalid_row_id_def by (simp add: marks_differ)
  show "get_all_values (snd (delete_specific_row row_id ?w1))
      = take (nat k - 1) (get_all_values ?w1) @ drop (nat k) (get_all_values ?w1)"
    by (simp add: second get_all_values_def)
qed

text \<open>
  The theorem at a table of three rows: row 9 is refused, and row 2 is deleted twice.
\<close>

theorem delete_validates_row_id_witness:
  "sheet_fault (ledger three_rows) = None
   \<and> py_int (JInt 9) = Inr 9
   \<and> int (length (get_all_values (ledger three_rows))) + 5 < 9
   \<and> delete_specific_row (JInt 9) (ledger three_rows)
       = (invalid_row_id (JInt 9) 3, ledger three_rows)
   \<and> py_int (JInt 2) = Inr 2
   \<and> in_grid 2 (ledger three_rows)
   \<and> delete_specific_row (JInt 2) (ledger three_rows)
       = (check_mark @ '' Deleted record #2.'',
          (ledger [[''2026-01-05'', ''Coffee'', ''3.50'' @ euro], [''2026-02-01'', ''Rent'', ''800'' @ euro]])
            \<lparr>grid_rows := 999\<rparr>)
   \<and> (2::int) \<le> int (length (get_all_values (snd (delete_specific_row (JInt 2) (ledger three_rows)))))
   \<and> length (get_all_values (ledger three_rows)) \<le> grid_rows (ledger three_rows)
   \<and> fst (delete_specific_row (JInt 2) (snd (delete_specific_row (JInt 2) (ledger three_rows))))
       = check_mark @ '' Deleted record #2.''
   \<and> get_all_values (snd (delete_specific_row (JInt 2) (snd (delete_specific_row (JInt 2) (ledger three_rows)))))
       = [[''2026-01-05'', ''Coffee'', ''3.50'' @ euro]]"
proof -
  have a: "sheet_fault (ledger three_rows) = None" by (simp add: ledger_def)
  have n: "length (get_all_values (ledger three_rows)) = 3"
    by (simp add: get_all_values_def ledger_def three_rows_def)
  have g: "in_grid 2 (ledger three_rows)" "grid_rows (ledger three_rows) = 1000"
    by (simp_all add: in_grid_def ledger_def)
  have s2: "str_int 2 = ''2''" by (simp add: str_int_def digits.simps digit_char_def)
  have out: "delete_specific_row (JInt 9) (ledger three_rows)
       = (invalid_row_id (JInt 9) 3, ledger three_rows)"
    using delete_validates_row_id [where w = "ledger three_rows" and row_id = "JInt 9" and k = 9] a n
    by simp
  have first: "delete_specific_row (JInt 2) (ledger three_rows)
       = (check_mark @ '' Deleted record #2.'',
          (ledger [[''2026-01-05'', ''Coffee'', ''3.50'' @ euro], [''2026-02-01'', ''Rent'', ''800'' @ euro]])
            \<lparr>grid_rows := 999\<rparr>)"
    using delete_validates_row_id [where w = "ledger three_rows" and row_id = "JInt 2" and k = 2] a n g s2
    by (simp add: ledger_def three_rows_def)
  have len1: "(2::int) \<le> int (length (get_all_values (snd (delete_specific_row (JInt 2) (ledger three_rows)))))"
    unfolding first by (simp add: get_all_values_def ledger_def)
  have second: "fst (delete_specific_row (JInt 2) (snd (delete_specific_row (JInt 2) (ledger three_rows))))
       = check_mark @ '' Deleted record #2.''
     \<and> get_all_values (snd (delete_specific_row (JInt 2) (snd (delete_specific_row (JInt 2) (ledger three_rows)))))
       = take (nat 2 - 1) (get_all_values (snd (delete_specific_row (JInt 2) (ledger three_rows))))
           @ drop (nat 2) (get_all_values (snd (delete_specific_row (JInt 2) (ledger three_rows))))"
    using delete_validates_row_id [where w = "ledger three_rows" and row_id = "JInt 2" and k = 2,
        THEN conjunct2, THEN conjunct2] a n g s2 len1
    by simp
  then have rows: "get_all_values (snd (delete_specific_row (JInt 2) (snd (delete_specific_row (JInt 2) (ledger three_rows)))))
       = [[''2026-01-05'', ''Coffee'', ''3.50'' @ euro]]"
    unfolding first by (simp add: get_all_values_def ledger_def)
  show ?thesis using a n g out first len1 second rows by simp
qed

text \<open>
  An update that gives only \<open>row_id\<close> and \<open>category\<close>: the row afterwards is the row as it
  was read (its first five cells, filled up with empty cells), with the category cell
  replaced when the category is a text that is not empty, followed by the cells beyond
  the fifth. The cells of the time stamp, the item, the amount and the note are kept.
\<close>

lemma update_category_only_keeps_other_cells:
  assumes "sheet_fault w = None" and "py_int row_id = Inr k" and "get_range k w = Inr [r]"
  shows "get_all_values (snd (update_specific_row row_id JNull JNull category JNull currency JNull w))
             ! (nat k - 1)
           = (r @ replicate (5 - length r) [])
               [3 := (if truthy category then py_str category
                      else (r @ replicate (5 - length r) []) ! 3)]
             @ drop 5 (get_all_values w ! (nat k - 1))"
proof -
  have g: "nat k \<le> length (sheet w)" "1 \<le> k" "r \<noteq> []"
    using get_range_row [OF assms(3)] by blast+
  then have idx: "nat k - 1 < length (sheet w)" by auto
  have o: "overlay (r @ replicate (5 - length r) []) JNull JNull category JNull currency JNull t
      = (r @ replicate (5 - length r) [])
               [3 := (if truthy category then py_str category
                      else (r @ replicate (5 - length r) []) ! 3)]" for t
    by (simp add: overlay_def Let_def)
  show ?thesis
    unfolding update_specific_row_ok [OF assms(1) assms(2) assms(3) g(3)]
    using idx by (simp add: o update_range_def get_all_values_def Let_def)
qed

text \<open>
  Claim C7. The docstring of \<open>update_specific_row\<close> and the claim say that only a field
  that is \<open>None\<close> is left as it is. The code tests the text fields with \<open>if field:\<close>, so
  an empty text is not written either, while the amount is tested with
  \<open>is not None\<close>. Here the call gives only \<open>row_id\<close> and an empty \<open>category\<close>; the row holds
  the category "Drinks". The code reports an update and leaves the category, and the
  whole ledger, as it was.
\<close>

theorem empty_category_is_not_written:
  "update_specific_row (JInt 2) JNull JNull (JStr []) JNull (JStr euro) JNull (ledger full_rows)
     = (check_mark @ '' Updated record #2: Coffee 3.50'' @ euro @ '' (Drinks)'', ledger full_rows)"
proof -
  have a: "sheet_fault (ledger full_rows) = None" by (simp add: ledger_def)
  have c: "py_int (JInt 2) = Inr 2" by simp
  have s2: "str_int 2 = ''2''" by (simp add: str_int_def digits.simps digit_char_def)
  show ?thesis
    unfolding update_specific_row_ok [OF a c full_rows_row_2, simplified]
    by (simp add: overlay_def update_range_def ledger_def full_rows_def s2)
qed

text \<open>
  The loop of \<open>calculate_total\<close> adds up, in the order of the rows, the amounts of the
  rows that its body does not skip; a row is not skipped exactly when it has three
  cells, its date parses and lies within the bounds, and its amount parses.
\<close>

lemma scan_rows_foldl:
  "scan_rows s e rows t = foldl fadd t (List.map_filter (row_amount s e) rows)"
  by (induction rows arbitrary: t) (simp_all add: map_filter_simps split: option.splits)

lemma row_amount_Some:
  "row_amount s e row = Some v \<longleftrightarrow>
     3 \<le> length row \<and>
     (\<exists>d. strptime_Ymd (take 10 (row ! 0)) = Inr d \<and>
          (\<forall>b. s = Some b \<longrightarrow> \<not> dt_less d b) \<and> (\<forall>b. e = Some b \<longrightarrow> \<not> dt_less b d)) \<and>
     float_of_str (clean_amount (row ! 2)) = Inr v"
  by (auto simp: row_amount_def Let_def split: sum.splits option.splits if_splits)

text \<open>The dates and the amounts of the example rows, evaluated.\<close>

lemmas strptime_eval = strptime_Ymd_def is_digit_def month_token_def day_token_def not_dash_def
  nat_of_digits_def digit_val_def days_in_month_def Let_def

lemma january_bounds:
  "range_bound (JStr ''2026-01-01'') = Inr (Some jan_first)"
  "range_bound (JStr ''2026-01-31'') = Inr (Some jan_last)"
  by (simp_all add: range_bound_def strptime_eval jan_first_def jan_last_def)

lemma quotient_of_seven_halves: "quotient_of (7 / 2) = (7, 2)"
  by code_simp

lemma round_double_seven_halves: "round_double (7 / 2) = Fin (7 / 2)"
proof -
  have "bitlen 7 = 3" and "bitlen 2 = 2"
    by (simp_all add: bitlen.simps)
  then have "ilog2 (7 / 2) = 1"
    by (simp add: ilog2_def quotient_of_seven_halves pow2_def)
  then show ?thesis
    by (simp add: round_double_def pow2_def round_half_even_def Let_def)
qed

lemma coffee_amount: "float_of_str (clean_amount (''3.50'' @ euro)) = Inr (Fin (7 / 2))"
  by (simp add: clean_amount_def euro_def float_of_str_def not_dot_def is_digit_def
      nat_of_digits_def digit_val_def round_double_seven_halves Let_def)

lemma coffee_in_january:
  "row_amount (Some jan_first) (map_option end_of_day (Some jan_last)) coffee_row = Some (Fin (7 / 2))"
proof -
  have "strptime_Ymd ''2026-01-05''
      = Inr \<lparr>year = 2026, month = 1, day = 5, hour = 0, minute = 0, second = 0\<rparr>"
    by (simp add: strptime_eval)
  then show ?thesis
    using coffee_amount
    by (simp add: row_amount_def coffee_row_def dt_less_def dt_key_def jan_first_def jan_last_def
        end_of_day_def)
qed

lemma rent_not_in_january:
  "row_amount (Some jan_first) (map_option end_of_day (Some jan_last))
     [''2026-02-01'', ''Rent'', ''800'' @ euro] = None"
proof -
  have "strptime_Ymd ''2026-02-01''
      = Inr \<lparr>year = 2026, month = 2, day = 1, hour = 0, minute = 0, second = 0\<rparr>"
    by (simp add: strptime_eval)
  then show ?thesis
    by (simp add: row_amount_def dt_less_def dt_key_def jan_first_def jan_last_def end_of_day_def)
qed

lemma coffee_total: "format_2f (fadd (Fin 0) (Fin (7 / 2))) = ''3.50''"
  by (simp add: round_double_seven_halves round_half_even_def pad2_def digits.simps
      digit_char_def Let_def)

text \<open>
  What \<open>calculate_total\<close> returns on a ledger that can be opened, for bounds that parse
  (or are left out): for a table of at most one row the text "0.00 (Sheet empty)";
  otherwise the sum, printed with two fractional digits, of the amounts of exactly
  those rows that have at least three cells, whose first ten characters parse as a
  date under \<open>%Y-%m-%d\<close>, whose date is not before the start and not after the end of
  the last day, and whose cleaned amount parses. Every row is visited; a row that
  fails one of the tests is passed over and the scan goes on. The two rows of the
  example of claim C8, with the range 2026-01-01 to 2026-01-31, give "3.50".
\<close>

theorem calculate_total_sums_rows_in_range:
  assumes "sheet_fault w = None"
    and "range_bound start_date = Inr s" and "range_bound end_date = Inr e"
  shows "calculate_total start_date end_date w
      = (if length (get_all_values w) \<le> 1 then ''0.00 (Sheet empty)''
         else format_2f (foldl fadd (Fin 0)
                (List.map_filter (row_amount s (map_option end_of_day e)) (get_all_values w))))"
  using assms by (simp add: calculate_total_def open_sheet_def Let_def scan_rows_foldl)

theorem calculate_total_example:
  "calculate_total (JStr ''2026-01-01'') (JStr ''2026-01-31'') (ledger example_rows) = ''3.50''"
proof -
  have a: "sheet_fault (ledger example_rows) = None" by (simp add: ledger_def)
  have rows: "List.map_filter (row_amount (Some jan_first) (map_option end_of_day (Some jan_last)))
         (get_all_values (ledger example_rows)) = [Fin (7 / 2)]"
    using coffee_in_january rent_not_in_january
    by (simp add: get_all_values_def ledger_def example_rows_def coffee_row_def map_filter_simps)
  have n: "\<not> length (get_all_values (ledger example_rows)) \<le> 1"
    by (simp add: get_all_values_def ledger_def example_rows_def)
  show ?thesis
    unfolding calculate_total_sums_rows_in_range [OF a january_bounds] rows
    using n coffee_total by simp
qed

text \<open>
  Claim C8. The claim has \<open>calculate_total\<close> sum exactly the rows in the range and give
  the text for an empty sheet only when the table has no data rows. The code gives
  that text whenever the table has at most one row. Here the table holds one record,
  of 2026-01-05 with the amount 3.50 (the table that \<open>append_to_sheet\<close> leaves on an
  empty sheet: the tools write no header). The row lies in the range 2026-01-01 to
  2026-01-31 and its date and amount parse, so the sum is "3.50"; the code returns
  "0.00 (Sheet empty)".
\<close>

theorem lone_record_is_reported_empty:
  "get_all_values (ledger [coffee_row]) = [coffee_row]
   \<and> row_amount (Some jan_first) (map_option end_of_day (Some jan_last)) coffee_row = Some (Fin (7 / 2))
   \<and> format_2f (fadd (Fin 0) (Fin (7 / 2))) = ''3.50''
   \<and> calculate_total (JStr ''2026-01-01'') (JStr ''2026-01-31'') (ledger [coffee_row])
       = ''0.00 (Sheet empty)''"
  using coffee_in_january coffee_total
  by (simp add: calculate_total_def open_sheet_def ledger_def get_all_values_def)

end
